theory Spec2Isabelle
  imports Main "HOL-Library.Sublist"
begin

section \<open>JavaScript strings\<close>

text \<open>
  A string of \<^verbatim>\<open>search.js\<close> is a sequence of code units. The model keeps the code units
  \<open>0..255\<close> (the Latin-1 range), one \<^typ>\<open>char\<close> each, so \<^typ>\<open>string\<close> stands for the
  JavaScript strings over that range. The built-ins the program calls are written out for
  this range from their ECMAScript definitions.
\<close>

text \<open>The characters matched by \<^verbatim>\<open>\s\<close> and stripped by \<^verbatim>\<open>trim()\<close>: TAB, LF, VT, FF, CR,
  SPACE and NO-BREAK SPACE.\<close>

definition isWhiteSpace :: "char \<Rightarrow> bool" where
  "isWhiteSpace c =
     (c \<in> set [CHR 0x09, CHR 0x0A, CHR 0x0B, CHR 0x0C, CHR 0x0D, CHR 0x20, CHR 0xA0])"

text \<open>\<^verbatim>\<open>String.prototype.toLowerCase\<close>: \<open>A..Z\<close> and the Latin-1 capitals \<open>0xC0..0xDE\<close>
  (the multiplication sign \<open>0xD7\<close> apart) move up by 32; every other code unit stays.\<close>

definition lowerChar :: "char \<Rightarrow> char" where
  "lowerChar c =
     (let n = (of_char c :: nat) in
      if (65 \<le> n \<and> n \<le> 90) \<or> (192 \<le> n \<and> n \<le> 222 \<and> n \<noteq> 215)
      then char_of (n + 32) else c)"

definition toLowerCase :: "string \<Rightarrow> string" where
  "toLowerCase s = map lowerChar s"

text \<open>\<^verbatim>\<open>String.prototype.trim\<close>.\<close>

definition trim :: "string \<Rightarrow> string" where
  "trim s = rev (dropWhile isWhiteSpace (rev (dropWhile isWhiteSpace s)))"

text \<open>\<^verbatim>\<open>s.split(/\s+/)\<close>: the string is cut at every maximal run of white space. A run at
  the very start leaves an empty first piece, a run at the very end an empty last piece,
  and the empty string gives the one piece \<open>''''\<close>; the result is never the empty array.\<close>

function splitWs :: "string \<Rightarrow> string list" where
  "splitWs [] = [[]]"
| "splitWs (c # cs) =
     (if isWhiteSpace c then [] # splitWs (dropWhile isWhiteSpace cs)
      else (case splitWs cs of [] \<Rightarrow> [[c]] | t # ts \<Rightarrow> (c # t) # ts))"
  by pat_completeness auto
termination
  by (relation "measure length") (auto simp: le_imp_less_Suc length_dropWhile_le)

text \<open>\<^verbatim>\<open>s.includes(t)\<close>: \<open>t\<close> occurs in \<open>s\<close> as a contiguous run of code units.\<close>

fun includesStr :: "string \<Rightarrow> string \<Rightarrow> bool" where
  "includesStr [] t = (t = [])"
| "includesStr (c # cs) t = (prefix t (c # cs) \<or> includesStr cs t)"

text \<open>\<^verbatim>\<open>Array.prototype.join(sep)\<close> on an array of strings.\<close>

fun join :: "string \<Rightarrow> string list \<Rightarrow> string" where
  "join sep [] = []"
| "join sep [x] = x"
| "join sep (x # y # ys) = x @ sep @ join sep (y # ys)"

text \<open>\<^verbatim>\<open>s.replace(/c/g, r)\<close> for a one-character pattern: every occurrence of the character
  is replaced, in one pass from left to right; the replacement text is not scanned again.
  (None of the replacement texts of the program contains a \<^verbatim>\<open>$\<close> pattern.)\<close>

definition replaceAll :: "char \<Rightarrow> string \<Rightarrow> string \<Rightarrow> string" where
  "replaceAll c r s = concat (map (\<lambda>x. if x = c then r else [x]) s)"


section \<open>Plain objects used as dictionaries\<close>

text \<open>
  \<^verbatim>\<open>colorMap\<close> and \<^verbatim>\<open>fileContents\<close> are plain objects read with \<^verbatim>\<open>obj[key]\<close> for a key that
  comes from the corpus. Such a read finds the object's own property first and then the
  members every plain object inherits from \<^verbatim>\<open>Object.prototype\<close>; those are functions (and
  \<^verbatim>\<open>__proto__\<close>, the prototype itself), all truthy and none of them a string. An
  assignment \<^verbatim>\<open>obj['__proto__'] = s\<close> of a string runs the inherited setter, which ignores
  it.
\<close>

definition objectPrototypeKeys :: "string list" where
  "objectPrototypeKeys =
     [''constructor'', ''hasOwnProperty'', ''isPrototypeOf'', ''propertyIsEnumerable'',
      ''toLocaleString'', ''toString'', ''valueOf'', ''__proto__'',
      ''__defineGetter__'', ''__defineSetter__'', ''__lookupGetter__'', ''__lookupSetter__'']"

datatype 'a lookup = Own 'a | Inherited | Undefined

definition getProp :: "(string \<rightharpoonup> 'a) \<Rightarrow> string \<Rightarrow> 'a lookup" where
  "getProp obj k =
     (case obj k of
        Some v \<Rightarrow> Own v
      | None \<Rightarrow> if k \<in> set objectPrototypeKeys then Inherited else Undefined)"

definition setProp :: "(string \<rightharpoonup> 'a) \<Rightarrow> string \<Rightarrow> 'a \<Rightarrow> (string \<rightharpoonup> 'a)" where
  "setProp obj k v = (if k = ''__proto__'' then obj else obj(k \<mapsto> v))"


section \<open>The tag corpus\<close>

text \<open>
  \<^verbatim>\<open>data/tags.json\<close> is \<^verbatim>\<open>{ "files": { path: { type, tags: [{tag, confidence}], color?,
  thumbnail? } } }\<close>. \<open>files\<close> lists the entries in the order \<^verbatim>\<open>Object.entries\<close> yields them.
  \<open>ftype\<close> is the \<^verbatim>\<open>type\<close> field, kept as the string the document holds; \<open>confidence\<close> is
  the text the value is displayed as; an absent \<^verbatim>\<open>color\<close> or \<^verbatim>\<open>thumbnail\<close> is \<open>None\<close>.
  A search result is \<^verbatim>\<open>{path, ...file}\<close>: the entry with its key added (an entry carries no
  \<^verbatim>\<open>path\<close> field of its own).
\<close>

record tagEntry =
  tag :: string
  confidence :: string

record fileEntry =
  ftype :: string
  tags :: "tagEntry list"
  color :: "string option"
  thumbnail :: "string option"

record result = fileEntry +
  path :: string

record corpus =
  files :: "(string \<times> fileEntry) list"

definition mkResult :: "string \<Rightarrow> fileEntry \<Rightarrow> result" where
  "mkResult p file =
     \<lparr>ftype = ftype file, tags = tags file, color = color file,
      thumbnail = thumbnail file, path = p\<rparr>"


section \<open>searchFiles\<close>

text \<open>The callback of \<^verbatim>\<open>searchTerms.every\<close>: \<^verbatim>\<open>file.tags.some(tagObj => ...)\<close>, whose body
  tests the tag itself and then the space-joined text of all the tags.\<close>

definition termMatches :: "fileEntry \<Rightarrow> string \<Rightarrow> bool" where
  "termMatches file term =
     list_ex
       (\<lambda>tagObj.
          let tagText = toLowerCase (tag tagObj) in
          includesStr tagText term \<or>
          includesStr (join '' '' (map (\<lambda>t. toLowerCase (tag t)) (tags file))) term)
       (tags file)"

definition hasAllTerms :: "string list \<Rightarrow> fileEntry \<Rightarrow> bool" where
  "hasAllTerms searchTerms file = list_all (termMatches file) searchTerms"

text \<open>The \<^verbatim>\<open>for ... of Object.entries(fileData.files)\<close> loop with its \<^verbatim>\<open>results.push\<close>.\<close>

fun searchLoop :: "string list \<Rightarrow> (string \<times> fileEntry) list \<Rightarrow> result list" where
  "searchLoop searchTerms [] = []"
| "searchLoop searchTerms ((p, file) # rest) =
     (if hasAllTerms searchTerms file
      then mkResult p file # searchLoop searchTerms rest
      else searchLoop searchTerms rest)"

text \<open>\<^verbatim>\<open>searchFiles(query)\<close> reads the global \<^verbatim>\<open>fileData\<close>, here its first argument:
  \<open>None\<close> is \<^verbatim>\<open>null\<close>, the value before the corpus has loaded. \<^verbatim>\<open>!query\<close> holds of the empty
  string only.\<close>

definition searchFiles :: "corpus option \<Rightarrow> string \<Rightarrow> result list" where
  "searchFiles fileData query =
     (case fileData of
        None \<Rightarrow> []
      | Some fd \<Rightarrow>
          if query = [] then []
          else searchLoop (splitWs (toLowerCase query)) (files fd))"

text \<open>The \<^verbatim>\<open>input\<close> listener of the search box hands \<^verbatim>\<open>e.target.value.trim()\<close> to
  \<^verbatim>\<open>searchFiles\<close>; these are the results it then displays.\<close>

definition searchInput :: "corpus option \<Rightarrow> string \<Rightarrow> result list" where
  "searchInput fileData val = searchFiles fileData (trim val)"

text \<open>The matching rule in the words of the specification: a term matches a record iff
  some tag's lower-cased text contains it, or the lower-cased tag texts joined by single
  spaces contain it; a record is returned iff every term of the lower-cased query matches.\<close>

definition spec_termMatches :: "fileEntry \<Rightarrow> string \<Rightarrow> bool" where
  "spec_termMatches file term \<longleftrightarrow>
     (\<exists>t \<in> set (tags file). sublist term (toLowerCase (tag t))) \<or>
     sublist term (join '' '' (map (\<lambda>t. toLowerCase (tag t)) (tags file)))"

definition spec_search :: "corpus \<Rightarrow> string \<Rightarrow> result list" where
  "spec_search fd query =
     map (\<lambda>(p, file). mkResult p file)
       (filter (\<lambda>(p, file). \<forall>term \<in> set (splitWs (toLowerCase query)). spec_termMatches file term)
          (files fd))"


section \<open>Loading the corpus\<close>

text \<open>
  The network is a parameter: \<open>fetch url\<close> is \<open>None\<close> when the promise of \<^verbatim>\<open>fetch(url)\<close>
  rejects and the response otherwise; \<open>jsonBody r\<close> and \<open>textBody r\<close> are \<open>None\<close> when
  \<^verbatim>\<open>r.json()\<close> (a body that does not parse) or \<^verbatim>\<open>r.text()\<close> rejects.
\<close>

datatype response = Response (jsonBody: "corpus option") (textBody: "string option")

datatype consoleEntry =
  DataLoaded
  | ErrorLoadingJSON
  | ErrorLoadingTextFile string
  | ErrorLoadingModel

record page =
  fileData :: "corpus option"
  fileContents :: "string \<rightharpoonup> string"
  console :: "consoleEntry list"

definition initialPage :: page where
  "initialPage = \<lparr>fileData = None, fileContents = Map.empty, console = []\<rparr>"

definition textFetchFailed :: "string \<Rightarrow> page \<Rightarrow> page" where
  "textFetchFailed p s =
     s\<lparr>console := console s @ [ErrorLoadingTextFile p],
       fileContents := setProp (fileContents s) p ''Error loading file content''\<rparr>"

fun loadTextContents ::
  "(string \<Rightarrow> response option) \<Rightarrow> (string \<times> fileEntry) list \<Rightarrow> page \<Rightarrow> page" where
  "loadTextContents fetch [] s = s"
| "loadTextContents fetch ((p, file) # rest) s =
     (if ftype file = ''text'' then
        (case fetch (''data/'' @ p) of
           None \<Rightarrow> loadTextContents fetch rest (textFetchFailed p s)
         | Some r \<Rightarrow>
             (case textBody r of
                None \<Rightarrow> loadTextContents fetch rest (textFetchFailed p s)
              | Some body \<Rightarrow>
                  loadTextContents fetch rest
                    (s\<lparr>fileContents := setProp (fileContents s) p body\<rparr>)))
      else loadTextContents fetch rest s)"

text \<open>\<^verbatim>\<open>loadData\<close>: both awaits and \<^verbatim>\<open>loadTextContents\<close> stand inside one \<^verbatim>\<open>try\<close>, whose
  \<^verbatim>\<open>catch\<close> only logs. \<^verbatim>\<open>fileData\<close> is assigned after \<^verbatim>\<open>response.json()\<close> has resolved.\<close>

definition loadData :: "(string \<Rightarrow> response option) \<Rightarrow> page \<Rightarrow> page" where
  "loadData fetch s =
     (case fetch ''data/tags.json'' of
        None \<Rightarrow> s\<lparr>console := console s @ [ErrorLoadingJSON]\<rparr>
      | Some r \<Rightarrow>
          (case jsonBody r of
             None \<Rightarrow> s\<lparr>console := console s @ [ErrorLoadingJSON]\<rparr>
           | Some fd \<Rightarrow>
               loadTextContents fetch (files fd)
                 (s\<lparr>fileData := Some fd, console := console s @ [DataLoaded]\<rparr>)))"


section \<open>HTML escaping\<close>

text \<open>\<^verbatim>\<open>escapeHtml\<close>: five global replacements, one after the other, the ampersand first.\<close>

definition escapeHtml :: "string \<Rightarrow> string" where
  \<open>escapeHtml unsafe =
     replaceAll (CHR 0x27) ''&#039;''
       (replaceAll (CHR 0x22) ''&quot;''
          (replaceAll (CHR ''>'') ''&gt;''
             (replaceAll (CHR ''<'') ''&lt;''
                (replaceAll (CHR ''&'') ''&amp;'' unsafe))))\<close>

text \<open>The five entities the replacements introduce.\<close>

definition entities :: "string list" where
  "entities = [''&amp;'', ''&lt;'', ''&gt;'', ''&quot;'', ''&#039;'']"


section \<open>Result markup\<close>

text \<open>
  Template literals are written line by line: \<open>lines\<close> joins the lines of a literal with
  the line feeds the source has between them. An interpolated string is the string itself;
  \<^verbatim>\<open>undefined\<close> is interpolated as the text \<^verbatim>\<open>undefined\<close>.
\<close>

datatype jsError = TypeError | NotFoundError

definition lines :: "string list \<Rightarrow> string" where
  "lines ls = join [CHR 0x0A] ls"

definition interpolate :: "string option \<Rightarrow> string" where
  "interpolate v = (case v of None \<Rightarrow> ''undefined'' | Some s \<Rightarrow> s)"

definition textContentDiv :: "string \<Rightarrow> string" where
  \<open>textContentDiv content = ''<div class="text-content">'' @ escapeHtml content @ ''</div>''\<close>

definition modelPlaceholder :: string where
  \<open>modelPlaceholder =
     lines
       [''<div class="model-placeholder">'',
        ''                        <div class="model-icon">'',
        ''                            <svg width="64" height="64" viewBox="0 0 24 24">'',
        ''                                <path fill="#666" d="M12,0L3,7L4,8.18V16.18L12,21L20,16.18V8.18L21,7L12,0M12,2.5L17.5,6.5L12,10.5L6.5,6.5L12,2.5M5,9.21V15.07L11,19V13.35L5,9.21M19,9.21L13,13.35V19L19,15.07V9.21Z"/>'',
        ''                            </svg>'',
        ''                        </div>'',
        ''                        <div>3D Model Preview</div>'',
        ''                    </div>'']\<close>

text \<open>
  \<^verbatim>\<open>getFilePreview(result)\<close>, reading the global \<^verbatim>\<open>fileContents\<close> (its first argument here).
  In the \<^verbatim>\<open>text\<close> branch the placeholder \<^verbatim>\<open>Loading...\<close> is taken when the read of
  \<^verbatim>\<open>fileContents[result.path]\<close> is \<^verbatim>\<open>undefined\<close> or the empty string. When the read finds an
  inherited member instead of a cached body, the value is truthy and no string, and
  \<^verbatim>\<open>escapeHtml\<close> throws a \<^verbatim>\<open>TypeError\<close> at \<^verbatim>\<open>unsafe.replace\<close>. \<^verbatim>\<open>if (result.thumbnail)\<close> holds of
  a non-empty string.
\<close>

definition getFilePreview :: "(string \<rightharpoonup> string) \<Rightarrow> result \<Rightarrow> jsError + string" where
  \<open>getFilePreview fc r =
     (if ftype r = ''image'' then
        Inr (''<img src="data/'' @ path r @ ''" alt="'' @ path r @ ''">'')
      else if ftype r = ''text'' then
        (case getProp fc (path r) of
           Own s \<Rightarrow> Inr (textContentDiv (if s = [] then ''Loading...'' else s))
         | Undefined \<Rightarrow> Inr (textContentDiv ''Loading...'')
         | Inherited \<Rightarrow> Inl TypeError)
      else if ftype r = ''3d'' then
        (case thumbnail r of
           None \<Rightarrow> Inr modelPlaceholder
         | Some t \<Rightarrow>
             if t = [] then Inr modelPlaceholder
             else
               Inr (lines
                 [''<div class="model-placeholder">'',
                  ''                        <img src="data/'' @ t @ ''" alt="'' @ path r @
                    ''" class="model-thumbnail">'',
                  ''                    </div>'']))
      else Inr [])\<close>

text \<open>The fixed table of color names.\<close>

definition colorMap :: "(string \<times> string) list" where
  "colorMap =
     [(''red'', ''#FF0000''), (''green'', ''#008000''), (''blue'', ''#0000FF''),
      (''black'', ''#000000''), (''white'', ''#FFFFFF''), (''yellow'', ''#FFFF00''),
      (''purple'', ''#800080''), (''orange'', ''#FFA500''), (''brown'', ''#A52A2A''),
      (''pink'', ''#FFC0CB''), (''gray'', ''#808080''), (''unknown'', ''#CCCCCC'')]"

text \<open>
  \<^verbatim>\<open>colorMap[result.color] || result.color\<close>, interpolated into the \<^verbatim>\<open>style\<close> attribute of the
  color dot. The key of the read is the color name (an absent color reads the key
  \<^verbatim>\<open>undefined\<close>). A hex value of the table is truthy and is taken; a name the table does not
  have gives the color name itself. For a name that finds an inherited member the
  interpolated text is that member's string conversion, which the program does not
  determine: it is the parameter \<open>nativeText\<close>.
\<close>

definition swatch :: "(string \<Rightarrow> string) \<Rightarrow> string option \<Rightarrow> string" where
  "swatch nativeText col =
     (case getProp (map_of colorMap) (interpolate col) of
        Own hex \<Rightarrow> if hex = [] then interpolate col else hex
      | Undefined \<Rightarrow> interpolate col
      | Inherited \<Rightarrow> nativeText (interpolate col))"

definition colorIndicator :: "(string \<Rightarrow> string) \<Rightarrow> result \<Rightarrow> string" where
  \<open>colorIndicator nativeText r =
     (if ftype r = ''image'' then
        lines
          ['''',
           ''                    <div class="color-indicator">'',
           ''                        <span class="color-dot" style="background-color: '' @
             swatch nativeText (color r) @ ''"></span>'',
           ''                        <span>'' @ interpolate (color r) @ ''</span>'',
           ''                    </div>'',
           ''                '']
      else [])\<close>

definition tagSpan :: "tagEntry \<Rightarrow> string" where
  \<open>tagSpan t = ''<span class="tag">'' @ tag t @ '' ('' @ confidence t @ '')</span>''\<close>

definition viewButton :: "result \<Rightarrow> string" where
  \<open>viewButton r =
     (if ftype r = ''3d'' then
        lines
          ['''',
           ''                    <button class="view-3d-btn" data-path="'' @ path r @
             ''">View 3D Model</button>'',
           ''                '']
      else [])\<close>

text \<open>The arrow function mapped over the results in \<^verbatim>\<open>displayResults\<close>. Its template
  literal, line by line, around the preview that \<^verbatim>\<open>getFilePreview\<close> returned:\<close>

definition itemLines :: "(string \<Rightarrow> string) \<Rightarrow> result \<Rightarrow> string \<Rightarrow> string list" where
  \<open>itemLines nativeText r preview =
     ['''',
      ''        <div class="result-item">'',
      ''            <div class="file-preview">'',
      ''                '' @ preview,
      ''            </div>'',
      ''            <div class="result-info">'',
      ''                <div class="file-type">'' @ ftype r @ ''</div>'',
      ''                <div class="file-path">'' @ path r @ ''</div>'',
      ''                '' @ colorIndicator nativeText r,
      ''                <div class="tags">'',
      ''                    '' @ join [] (map tagSpan (tags r)),
      ''                </div>'',
      ''                '' @ viewButton r,
      ''            </div>'',
      ''        </div>'',
      ''    '']\<close>

text \<open>The markup of one result card, or the error \<^verbatim>\<open>getFilePreview\<close> throws.\<close>

definition resultItem ::
  "(string \<rightharpoonup> string) \<Rightarrow> (string \<Rightarrow> string) \<Rightarrow> result \<Rightarrow> jsError + string" where
  "resultItem fc nativeText r =
     (case getFilePreview fc r of
        Inl e \<Rightarrow> Inl e
      | Inr preview \<Rightarrow> Inr (lines (itemLines nativeText r preview)))"

text \<open>\<^verbatim>\<open>results.map(...)\<close>: the cards in order; the first error ends the call.\<close>

fun resultItems ::
  "(string \<rightharpoonup> string) \<Rightarrow> (string \<Rightarrow> string) \<Rightarrow> result list \<Rightarrow> jsError + string list" where
  "resultItems fc nativeText [] = Inr []"
| "resultItems fc nativeText (r # rs) =
     (case resultItem fc nativeText r of
        Inl e \<Rightarrow> Inl e
      | Inr item \<Rightarrow>
          (case resultItems fc nativeText rs of
             Inl e \<Rightarrow> Inl e
           | Inr items \<Rightarrow> Inr (item # items)))"

text \<open>
  \<^verbatim>\<open>displayResults(results)\<close> on the \<^verbatim>\<open>results\<close> container: no results hide it and leave its
  markup alone; otherwise it is shown as a grid and its markup replaced. An error thrown
  while the cards are built leaves the function after \<^verbatim>\<open>display\<close> has been set and before
  \<^verbatim>\<open>innerHTML\<close> is assigned; it is returned beside the container.
\<close>

record container =
  display :: string
  innerHTML :: string

definition displayResults ::
  "(string \<rightharpoonup> string) \<Rightarrow> (string \<Rightarrow> string) \<Rightarrow> result list \<Rightarrow> container
     \<Rightarrow> jsError option \<times> container" where
  "displayResults fc nativeText results c =
     (if results = [] then (None, c\<lparr>display := ''none''\<rparr>)
      else
        (case resultItems fc nativeText results of
           Inl e \<Rightarrow> (Some e, c\<lparr>display := ''grid''\<rparr>)
         | Inr items \<Rightarrow> (None, c\<lparr>display := ''grid'', innerHTML := join [] items\<rparr>)))"


section \<open>The 3D model viewer\<close>

text \<open>
  Every call of \<^verbatim>\<open>initThreeJsViewer\<close> builds a scene, a camera, a renderer, controls and a
  loading indicator of its own, and leaves behind closures that keep them: the three
  loader callbacks, \<^verbatim>\<open>animate\<close> and the resize listener. A session is what one call built,
  named by its number in the order of the calls. Shared between the sessions are the
  global \<^verbatim>\<open>currentModel\<close>, the modal, the element \<^verbatim>\<open>model-container\<close>, the window's resize
  listeners and the browser's queue of animation-frame callbacks. Camera positions and
  sizes are left out. A decoded scene root (\<^verbatim>\<open>gltf.scene\<close>) is named by a number. The page
  loads three.js r126, whose loader hands the scene root over as a \<^verbatim>\<open>THREE.Group\<close>; a group
  has no \<^verbatim>\<open>dispose\<close> method. \<open>disposed\<close> lists the scene roots whose \<^verbatim>\<open>dispose\<close> has returned.
\<close>

type_synonym model = nat

datatype node = Canvas nat | LoadingText nat

record session =
  modelUrl :: string
  loadingHTML :: string
  sceneModels :: "model list"
  rendered :: nat

record viewer =
  modalDisplay :: "string option"
  containerNodes :: "node list"
  sessions :: "session list"
  frameCallbacks :: "nat list"
  resizeListeners :: "nat list"
  currentModel :: "model option"
  disposed :: "model list"
  viewerConsole :: "consoleEntry list"
  uncaught :: "jsError list"

text \<open>The page before the first click: no modal yet (\<open>None\<close>), nothing scheduled.\<close>

definition initialViewer :: viewer where
  "initialViewer =
     \<lparr>modalDisplay = None, containerNodes = [], sessions = [], frameCallbacks = [],
      resizeListeners = [], currentModel = None, disposed = [], viewerConsole = [],
      uncaught = []\<rparr>"

definition updateSession :: "nat \<Rightarrow> (session \<Rightarrow> session) \<Rightarrow> viewer \<Rightarrow> viewer" where
  "updateSession i f v =
     (if i < length (sessions v) then v\<lparr>sessions := (sessions v)[i := f (sessions v ! i)]\<rparr>
      else v)"

text \<open>\<^verbatim>\<open>animate\<close> of session \<open>i\<close>: it asks for the next frame first, then updates the controls
  and renders.\<close>

definition animate :: "nat \<Rightarrow> viewer \<Rightarrow> viewer" where
  "animate i v =
     updateSession i (\<lambda>s. s\<lparr>rendered := Suc (rendered s)\<rparr>)
       (v\<lparr>frameCallbacks := frameCallbacks v @ [i]\<rparr>)"

text \<open>\<^verbatim>\<open>initThreeJsViewer(modelUrl)\<close>: the container is emptied, the new renderer's canvas and
  the new loading indicator are appended, the decode is started, \<^verbatim>\<open>animate()\<close> is called
  once and the resize listener is added to the window.\<close>

definition initThreeJsViewer :: "string \<Rightarrow> viewer \<Rightarrow> viewer" where
  "initThreeJsViewer url v =
     (let n = length (sessions v);
          created = v\<lparr>containerNodes := [Canvas n, LoadingText n],
                      sessions := sessions v @
                        [\<lparr>modelUrl = url, loadingHTML = ''Loading 3D model...'',
                          sceneModels = [], rendered = 0\<rparr>]\<rparr>;
          running = animate n created
      in running\<lparr>resizeListeners := resizeListeners running @ [n]\<rparr>)"

text \<open>\<^verbatim>\<open>openModelViewer(modelPath)\<close>: the modal is created on the first call, shown, and the
  viewer initialised for \<^verbatim>\<open>'data/' + modelPath\<close>.\<close>

definition openModelViewer :: "string \<Rightarrow> viewer \<Rightarrow> viewer" where
  "openModelViewer modelPath v =
     initThreeJsViewer (''data/'' @ modelPath) (v\<lparr>modalDisplay := Some ''block''\<rparr>)"

text \<open>\<^verbatim>\<open>closeModelViewer()\<close>: the modal, if there is one, is hidden. When \<^verbatim>\<open>currentModel\<close> holds
  a scene root, \<^verbatim>\<open>currentModel.dispose()\<close> is called on an object that has no such method: the
  call throws a \<^verbatim>\<open>TypeError\<close>, the function ends there, and the assignment
  \<^verbatim>\<open>currentModel = null\<close> after it is not reached.\<close>

definition closeModelViewer :: "viewer \<Rightarrow> viewer" where
  "closeModelViewer v =
     (let hidden = (case modalDisplay v of
                      None \<Rightarrow> v
                    | Some d \<Rightarrow> v\<lparr>modalDisplay := Some ''none''\<rparr>)
      in case currentModel hidden of
           None \<Rightarrow> hidden
         | Some m \<Rightarrow> hidden\<lparr>uncaught := uncaught hidden @ [TypeError]\<rparr>)"

text \<open>The success callback of session \<open>i\<close>. \<^verbatim>\<open>container.removeChild(loadingText)\<close> comes
  first and throws a \<^verbatim>\<open>NotFoundError\<close> when the indicator is no child of the container any
  more; the callback ends there. Otherwise the decoded scene is added to the session's
  scene and stored in \<^verbatim>\<open>currentModel\<close>.\<close>

definition onSuccess :: "nat \<Rightarrow> model \<Rightarrow> viewer \<Rightarrow> viewer" where
  "onSuccess i m v =
     (if LoadingText i \<in> set (containerNodes v) then
        updateSession i (\<lambda>s. s\<lparr>sceneModels := sceneModels s @ [m]\<rparr>)
          (v\<lparr>containerNodes := remove1 (LoadingText i) (containerNodes v),
             currentModel := Some m\<rparr>)
      else v\<lparr>uncaught := uncaught v @ [NotFoundError]\<rparr>)"

text \<open>The progress callback of session \<open>i\<close>; \<open>percent\<close> is the text of
  \<^verbatim>\<open>Math.round(percent)\<close>.\<close>

definition onProgress :: "nat \<Rightarrow> string \<Rightarrow> viewer \<Rightarrow> viewer" where
  "onProgress i percent v =
     updateSession i (\<lambda>s. s\<lparr>loadingHTML := ''Loading: '' @ percent @ ''%''\<rparr>) v"

text \<open>The error callback of session \<open>i\<close>.\<close>

definition onError :: "nat \<Rightarrow> viewer \<Rightarrow> viewer" where
  "onError i v =
     updateSession i (\<lambda>s. s\<lparr>loadingHTML := ''Error loading model''\<rparr>)
       (v\<lparr>viewerConsole := viewerConsole v @ [ErrorLoadingModel]\<rparr>)"

text \<open>One display frame: the browser takes the callbacks queued by
  \<^verbatim>\<open>requestAnimationFrame\<close> and runs them in order; each \<^verbatim>\<open>animate\<close> queues itself again.\<close>

definition frame :: "viewer \<Rightarrow> viewer" where
  "frame v = foldl (\<lambda>w i. animate i w) (v\<lparr>frameCallbacks := []\<rparr>) (frameCallbacks v)"

text \<open>
  What can happen to the viewer: a click on a \<^verbatim>\<open>View 3D Model\<close> button, a click on the close
  button, a display frame, and a callback of the loader for a session. A session that was
  never created has no callbacks; an event that names one changes nothing. The resize
  listeners touch sizes only, so a resize of the window is no event here.
\<close>

datatype event =
  OpenModel string
  | CloseModel
  | Frame
  | DecodeSuccess nat model
  | DecodeProgress nat string
  | DecodeError nat

fun step :: "event \<Rightarrow> viewer \<Rightarrow> viewer" where
  "step (OpenModel modelPath) v = openModelViewer modelPath v"
| "step CloseModel v = closeModelViewer v"
| "step Frame v = frame v"
| "step (DecodeSuccess i m) v = (if i < length (sessions v) then onSuccess i m v else v)"
| "step (DecodeProgress i percent) v =
     (if i < length (sessions v) then onProgress i percent v else v)"
| "step (DecodeError i) v = (if i < length (sessions v) then onError i v else v)"

definition run :: "event list \<Rightarrow> viewer \<Rightarrow> viewer" where
  "run evs v = foldl (\<lambda>w e. step e w) v evs"

fun isOpen :: "event \<Rightarrow> bool" where
  "isOpen (OpenModel modelPath) = True"
| "isOpen e = False"


section \<open>Auxiliary views\<close>

text \<open>What the five replacements of \<^verbatim>\<open>escapeHtml\<close> make of one character.\<close>

definition escapeChar :: "char \<Rightarrow> string" where
  "escapeChar c =
     (if c = CHR ''&'' then ''&amp;''
      else if c = CHR ''<'' then ''&lt;''
      else if c = CHR ''>'' then ''&gt;''
      else if c = CHR 0x22 then ''&quot;''
      else if c = CHR 0x27 then ''&#039;''
      else [c])"

text \<open>The text cached for a path once its fetch has settled.\<close>

definition fetchedText :: "(string \<Rightarrow> response option) \<Rightarrow> string \<Rightarrow> string" where
  "fetchedText fetch p =
     (case fetch (''data/'' @ p) of
        None \<Rightarrow> ''Error loading file content''
      | Some r \<Rightarrow>
          (case textBody r of None \<Rightarrow> ''Error loading file content'' | Some body \<Rightarrow> body))"


section \<open>Example data\<close>

text \<open>The corpus of the specification's concrete scenario, and a corpus whose one record
  has no tags.\<close>

definition catFile :: fileEntry where
  "catFile =
     \<lparr>ftype = ''text'', tags = [\<lparr>tag = ''cat'', confidence = ''100%''\<rparr>],
      color = None, thumbnail = None\<rparr>"

definition dogFile :: fileEntry where
  "dogFile =
     \<lparr>ftype = ''image'', tags = [\<lparr>tag = ''dog'', confidence = ''90%''\<rparr>],
      color = Some ''blue'', thumbnail = None\<rparr>"

definition exampleCorpus :: corpus where
  "exampleCorpus = \<lparr>files = [(''a.txt'', catFile), (''b.png'', dogFile)]\<rparr>"

definition untaggedFile :: fileEntry where
  "untaggedFile = \<lparr>ftype = ''text'', tags = [], color = None, thumbnail = None\<rparr>"

definition untaggedCorpus :: corpus where
  "untaggedCorpus = \<lparr>files = [(''c.txt'', untaggedFile)]\<rparr>"

text \<open>Records whose fields hold markup characters, a text record, a network that serves one
  text file with an empty body, and a text with all five characters to escape.\<close>

definition markupFile :: fileEntry where
  "markupFile =
     \<lparr>ftype = ''image'', tags = [\<lparr>tag = ''a&b'', confidence = ''<90%>''\<rparr>],
      color = Some ''<teal>'', thumbnail = None\<rparr>"

definition modelFile :: fileEntry where
  "modelFile =
     \<lparr>ftype = ''3d'', tags = [\<lparr>tag = ''chair'', confidence = ''100.00%''\<rparr>],
      color = None, thumbnail = Some ''m<1>.png''\<rparr>"

definition noteFile :: fileEntry where
  "noteFile =
     \<lparr>ftype = ''text'', tags = [\<lparr>tag = ''note'', confidence = ''100.00%''\<rparr>],
      color = None, thumbnail = None\<rparr>"

definition exampleFetch :: "string \<Rightarrow> response option" where
  "exampleFetch url =
     (if url = ''data/tags.json''
      then Some (Response (Some \<lparr>files = [(''empty.txt'', noteFile)]\<rparr>) None)
      else if url = ''data/empty.txt'' then Some (Response None (Some []))
      else None)"

definition unsafeText :: string where
  \<open>unsafeText = ''<a href="x">Tom & Jerry'' @ [CHR 0x27] @ ''s</a>''\<close>


section \<open>Facts about the string functions\<close>

lemma splitWs_not_Nil: "splitWs s \<noteq> []"
  by (induction s rule: splitWs.induct) (auto split: list.splits)

lemma includesStr_sublist: "includesStr s t \<longleftrightarrow> sublist t s"
  by (induction s) (auto simp: sublist_Cons_right)

lemma trim_whitespace_only:
  assumes "list_all isWhiteSpace s"
  shows "trim s = []"
proof -
  from assms have d: "dropWhile isWhiteSpace s = []"
    by (induction s) auto
  show ?thesis
    unfolding trim_def d by simp
qed


section \<open>The query engine\<close>

lemma searchLoop_filter:
  "searchLoop ts fs =
     map (\<lambda>(p, file). mkResult p file) (filter (\<lambda>(p, file). hasAllTerms ts file) fs)"
  by (induction ts fs rule: searchLoop.induct) auto

lemma termMatches_spec:
  "termMatches file term \<longleftrightarrow> tags file \<noteq> [] \<and> spec_termMatches file term"
  by (cases "tags file")
     (auto simp: termMatches_def spec_termMatches_def list_ex_iff includesStr_sublist Let_def)

lemma hasAllTerms_spec:
  assumes "ts \<noteq> []"
  shows "hasAllTerms ts file \<longleftrightarrow>
           tags file \<noteq> [] \<and> (\<forall>term \<in> set ts. spec_termMatches file term)"
proof -
  from assms obtain t where "t \<in> set ts"
    by (cases ts) auto
  then show ?thesis
    by (auto simp: hasAllTerms_def list_all_iff termMatches_spec)
qed

lemma searchFiles_loaded:
  assumes "query \<noteq> []"
  shows "searchFiles (Some fd) query =
           map (\<lambda>(p, file). mkResult p file)
             (filter
                (\<lambda>(p, file). tags file \<noteq> [] \<and>
                   (\<forall>term \<in> set (splitWs (toLowerCase query)). spec_termMatches file term))
                (files fd))"
  using assms
  by (simp add: searchFiles_def searchLoop_filter hasAllTerms_spec [OF splitWs_not_Nil])

lemma searchFiles_blank_query_example:
  "searchFiles (Some exampleCorpus) '' '' = [mkResult ''a.txt'' catFile, mkResult ''b.png'' dogFile]"
  by code_simp

text \<open>
  C1 (as amended). For every loaded corpus, \<open>searchFiles\<close> returns the empty sequence for
  the empty query, and for every non-empty query exactly the records that have at least
  one tag and for which every term of the lower-cased query, split at runs of white space,
  matches: some tag's lower-cased text contains the term, or the space-joined lower-cased
  tag texts contain it. The records come in corpus iteration order, with no ranking.
\<close>

theorem searchFiles_exact:
  "searchFiles (Some fd) [] = [] \<and>
   (query \<noteq> [] \<longrightarrow>
      searchFiles (Some fd) query =
        map (\<lambda>(p, file). mkResult p file)
          (filter
             (\<lambda>(p, file). tags file \<noteq> [] \<and>
                (\<forall>term \<in> set (splitWs (toLowerCase query)). spec_termMatches file term))
             (files fd)))"
  by (simp add: searchFiles_loaded) (simp add: searchFiles_def)

theorem searchFiles_exact_witness:
  "''CAT'' \<noteq> [] \<and>
   searchFiles (Some exampleCorpus) ''CAT'' =
     map (\<lambda>(p, file). mkResult p file)
       (filter
          (\<lambda>(p, file). tags file \<noteq> [] \<and>
             (\<forall>term \<in> set (splitWs (toLowerCase ''CAT'')). spec_termMatches file term))
          (files exampleCorpus)) \<and>
   searchFiles (Some exampleCorpus) ''CAT'' = [mkResult ''a.txt'' catFile]"
proof -
  have "searchFiles (Some exampleCorpus) ''CAT'' = [mkResult ''a.txt'' catFile]"
    by code_simp
  with searchFiles_exact [of exampleCorpus "''CAT''"] show ?thesis
    by simp
qed

text \<open>
  The claim as stated fails in two places. For the empty query every record satisfies the
  matching rule (its one term is the empty string, which every text contains), and
  \<open>searchFiles\<close> returns nothing. For the query of one space both terms are empty, the
  record without tags satisfies the rule through the empty joined text, and \<open>searchFiles\<close>
  does not return it.
\<close>

theorem searchFiles_spec_search_counterexample:
  "searchFiles (Some exampleCorpus) [] = [] \<and>
   spec_search exampleCorpus [] = [mkResult ''a.txt'' catFile, mkResult ''b.png'' dogFile] \<and>
   searchFiles (Some untaggedCorpus) '' '' = [] \<and>
   spec_search untaggedCorpus '' '' = [mkResult ''c.txt'' untaggedFile]"
proof -
  have "searchFiles (Some exampleCorpus) [] = []"
    by (simp add: searchFiles_def)
  moreover have "spec_search exampleCorpus [] =
      [mkResult ''a.txt'' catFile, mkResult ''b.png'' dogFile]"
    by (simp add: spec_search_def spec_termMatches_def exampleCorpus_def toLowerCase_def)
  moreover have "searchFiles (Some untaggedCorpus) '' '' = []"
    by code_simp
  moreover have "spec_search untaggedCorpus '' '' = [mkResult ''c.txt'' untaggedFile]"
    by (simp add: spec_search_def spec_termMatches_def untaggedCorpus_def untaggedFile_def
        toLowerCase_def lowerChar_def isWhiteSpace_def)
  ultimately show ?thesis
    by simp
qed

text \<open>
  C5. The empty query gives the empty sequence; a query of white space only, typed into the
  search box, is trimmed to the empty string by the input listener and gives the empty
  sequence; and every query gives the empty sequence while the corpus is unloaded
  (\<^verbatim>\<open>fileData\<close> is \<^verbatim>\<open>null\<close>) or has no files.
\<close>

theorem search_empty:
  "searchFiles fdata [] = [] \<and>
   (list_all isWhiteSpace val \<longrightarrow> searchInput fdata val = []) \<and>
   searchFiles None query = [] \<and>
   searchInput None val = [] \<and>
   (files fd = [] \<longrightarrow> searchFiles (Some fd) query = [] \<and> searchInput (Some fd) val = [])"
  by (auto simp: searchFiles_def searchInput_def trim_whitespace_only split: option.splits)

theorem search_empty_witness:
  "list_all isWhiteSpace [CHR 0x20, CHR 0x09, CHR 0x20] \<and>
   searchInput (Some exampleCorpus) [CHR 0x20, CHR 0x09, CHR 0x20] = [] \<and>
   searchFiles (Some exampleCorpus) [] = [] \<and>
   searchFiles None ''cat'' = [] \<and>
   files \<lparr>files = []\<rparr> = [] \<and>
   searchFiles (Some \<lparr>files = []\<rparr>) ''cat'' = [] \<and>
   searchInput (Some \<lparr>files = []\<rparr>) '' cat'' = []"
proof -
  have ws: "list_all isWhiteSpace [CHR 0x20, CHR 0x09, CHR 0x20]"
    by (simp add: isWhiteSpace_def)
  have nofiles: "files \<lparr>files = []\<rparr> = []"
    by simp
  from search_empty [of "Some exampleCorpus" "[CHR 0x20, CHR 0x09, CHR 0x20]" "''cat''"
      "\<lparr>files = []\<rparr>"] ws
  have "searchInput (Some exampleCorpus) [CHR 0x20, CHR 0x09, CHR 0x20] = []"
    and "searchFiles (Some exampleCorpus) [] = []"
    and "searchFiles None ''cat'' = []"
    and "searchFiles (Some \<lparr>files = []\<rparr>) ''cat'' = []"
    by simp_all
  moreover from search_empty [of None "'' cat''" "''cat''" "\<lparr>files = []\<rparr>"]
  have "searchInput (Some \<lparr>files = []\<rparr>) '' cat'' = []"
    by simp
  ultimately show ?thesis
    using ws nofiles by simp
qed


section \<open>Corpus loading\<close>

lemma loadData_fetch_rejects:
  "fetch ''data/tags.json'' = None \<Longrightarrow>
     loadData fetch s = s\<lparr>console := console s @ [ErrorLoadingJSON]\<rparr>"
  by (simp add: loadData_def)

lemma loadData_json_rejects:
  "fetch ''data/tags.json'' = Some r \<Longrightarrow> jsonBody r = None \<Longrightarrow>
     loadData fetch s = s\<lparr>console := console s @ [ErrorLoadingJSON]\<rparr>"
  by (simp add: loadData_def)

text \<open>
  C8. When the fetch of \<^verbatim>\<open>data/tags.json\<close> rejects, or its body does not parse, \<open>loadData\<close>
  catches the error: it returns, the only trace is one line on the console, \<^verbatim>\<open>fileData\<close>
  stays \<^verbatim>\<open>null\<close> and the text cache stays empty; from then on every search, direct or
  through the search box, returns the empty sequence.
\<close>

theorem loadData_failure_recovers:
  assumes "fetch ''data/tags.json'' = None \<or>
           (\<exists>r. fetch ''data/tags.json'' = Some r \<and> jsonBody r = None)"
  shows "loadData fetch initialPage = initialPage\<lparr>console := [ErrorLoadingJSON]\<rparr> \<and>
         fileData (loadData fetch initialPage) = None \<and>
         searchFiles (fileData (loadData fetch initialPage)) query = [] \<and>
         searchInput (fileData (loadData fetch initialPage)) val = []"
proof -
  from assms have "loadData fetch initialPage =
      initialPage\<lparr>console := console initialPage @ [ErrorLoadingJSON]\<rparr>"
    by (auto simp: loadData_fetch_rejects loadData_json_rejects)
  then have eq: "loadData fetch initialPage = initialPage\<lparr>console := [ErrorLoadingJSON]\<rparr>"
    by (simp add: initialPage_def)
  then show ?thesis
    by (simp add: initialPage_def searchFiles_def searchInput_def)
qed

theorem loadData_failure_recovers_witness:
  "fileData (loadData (\<lambda>url. None) initialPage) = None \<and>
   searchFiles (fileData (loadData (\<lambda>url. None) initialPage)) ''cat'' = [] \<and>
   fileData (loadData (\<lambda>url. Some (Response None (Some ''<html>''))) initialPage) = None \<and>
   searchFiles (fileData (loadData (\<lambda>url. Some (Response None (Some ''<html>''))) initialPage))
     ''cat'' = []"
proof -
  have a: "(\<lambda>url. None :: response option) ''data/tags.json'' = None \<or>
      (\<exists>r. (\<lambda>url. None :: response option) ''data/tags.json'' = Some r \<and> jsonBody r = None)"
    by simp
  have b: "(\<lambda>url. Some (Response None (Some ''<html>''))) ''data/tags.json'' = None \<or>
      (\<exists>r. (\<lambda>url. Some (Response None (Some ''<html>''))) ''data/tags.json'' = Some r \<and>
           jsonBody r = None)"
    by simp
  from loadData_failure_recovers [OF a, of "''cat''" "''cat''"]
    loadData_failure_recovers [OF b, of "''cat''" "''cat''"]
  show ?thesis
    by blast
qed


section \<open>HTML escaping\<close>

lemma replaceAll_Nil: "replaceAll c r [] = []"
  by (simp add: replaceAll_def)

lemma replaceAll_Cons: "replaceAll c r (x # xs) = (if x = c then r else [x]) @ replaceAll c r xs"
  by (simp add: replaceAll_def)

lemma replaceAll_append: "replaceAll c r (xs @ ys) = replaceAll c r xs @ replaceAll c r ys"
  by (simp add: replaceAll_def)

lemma escapeHtml_Nil: "escapeHtml [] = []"
  by (simp add: escapeHtml_def replaceAll_Nil)

lemma escapeHtml_Cons: "escapeHtml (c # s) = escapeChar c @ escapeHtml s"
  by (simp add: escapeHtml_def escapeChar_def replaceAll_Cons replaceAll_append replaceAll_Nil)

lemma escapeHtml_concat: "escapeHtml s = concat (map escapeChar s)"
  by (induction s) (simp_all add: escapeHtml_Nil escapeHtml_Cons)

lemma set_escapeChar:
  "set (escapeChar c) \<inter> {CHR ''<'', CHR ''>'', CHR 0x22, CHR 0x27} = {}"
  by (simp add: escapeChar_def)

lemma escapeHtml_no_markup:
  "set (escapeHtml s) \<inter> {CHR ''<'', CHR ''>'', CHR 0x22, CHR 0x27} = {}"
  using set_escapeChar by (induction s) (auto simp: escapeHtml_Nil escapeHtml_Cons)

lemma escapeChar_amp:
  assumes "i < length (escapeChar c)" and "escapeChar c ! i = CHR ''&''"
  shows "i = 0 \<and> escapeChar c \<in> set entities"
  using assms
  by (auto simp: escapeChar_def entities_def nth_Cons' less_Suc_eq split: if_splits)

lemma escapeHtml_amp:
  "i < length (escapeHtml s) \<Longrightarrow> escapeHtml s ! i = CHR ''&'' \<Longrightarrow>
     \<exists>e \<in> set entities. prefix e (drop i (escapeHtml s))"
proof (induction s arbitrary: i)
  case Nil
  then show ?case by (simp add: escapeHtml_Nil)
next
  case (Cons c s)
  show ?case
  proof (cases "i < length (escapeChar c)")
    case True
    with Cons.prems have "escapeChar c ! i = CHR ''&''"
      by (simp add: escapeHtml_Cons nth_append)
    with True have "i = 0" and "escapeChar c \<in> set entities"
      using escapeChar_amp by blast+
    then show ?thesis
      by (auto simp: escapeHtml_Cons intro!: bexI [of _ "escapeChar c"])
  next
    case False
    with Cons.prems have "i - length (escapeChar c) < length (escapeHtml s)"
      and "escapeHtml s ! (i - length (escapeChar c)) = CHR ''&''"
      by (auto simp: escapeHtml_Cons nth_append)
    from Cons.IH [OF this] False show ?thesis
      by (simp add: escapeHtml_Cons)
  qed
qed

lemma preview_text:
  assumes "ftype r = ''text''" and "getFilePreview fc r = Inr preview"
  shows \<open>\<exists>content.
           preview = ''<div class="text-content">'' @ escapeHtml content @ ''</div>'' \<and>
           (content = ''Loading...'' \<or> fc (path r) = Some content)\<close>
  using assms
  by (auto simp: getFilePreview_def getProp_def textContentDiv_def
      split: option.splits if_splits)

lemma escapeChar_cases:
  "escapeChar =
     (\<lambda>c. if c = CHR ''&'' then ''&amp;''
           else if c = CHR ''<'' then ''&lt;''
           else if c = CHR ''>'' then ''&gt;''
           else if c = CHR 0x22 then ''&quot;''
           else if c = CHR 0x27 then ''&#039;''
           else [c])"
  by (rule ext) (simp add: escapeChar_def)

text \<open>
  C6. For every source string the output of \<open>escapeHtml\<close> is the source with each ampersand,
  \<^verbatim>\<open><\<close>, \<^verbatim>\<open>>\<close>, double quote and apostrophe replaced by its entity and every other character
  kept, in the order of the source. So the output contains none of \<^verbatim>\<open><\<close>, \<^verbatim>\<open>>\<close>, the double quote
  and the apostrophe, and every ampersand in it starts one of the five entities, put there
  for one of the five characters of the source. The preview of a text record is the
  \<^verbatim>\<open>text-content\<close> element around the escaped content, the content being the cached body or
  the placeholder.
\<close>

theorem escapeHtml_safe:
  \<open>escapeHtml s =
     concat (map
       (\<lambda>c. if c = CHR ''&'' then ''&amp;''
             else if c = CHR ''<'' then ''&lt;''
             else if c = CHR ''>'' then ''&gt;''
             else if c = CHR 0x22 then ''&quot;''
             else if c = CHR 0x27 then ''&#039;''
             else [c]) s) \<and>
   CHR ''<'' \<notin> set (escapeHtml s) \<and> CHR ''>'' \<notin> set (escapeHtml s) \<and>
   CHR 0x22 \<notin> set (escapeHtml s) \<and> CHR 0x27 \<notin> set (escapeHtml s) \<and>
   (\<forall>i < length (escapeHtml s).
      escapeHtml s ! i = CHR ''&'' \<longrightarrow>
      (\<exists>e \<in> set entities. prefix e (drop i (escapeHtml s)))) \<and>
   (ftype r = ''text'' \<and> getFilePreview fc r = Inr preview \<longrightarrow>
      (\<exists>content.
         preview = ''<div class="text-content">'' @ escapeHtml content @ ''</div>'' \<and>
         (content = ''Loading...'' \<or> fc (path r) = Some content)))\<close>
proof -
  have "escapeHtml s =
     concat (map
       (\<lambda>c. if c = CHR ''&'' then ''&amp;''
             else if c = CHR ''<'' then ''&lt;''
             else if c = CHR ''>'' then ''&gt;''
             else if c = CHR 0x22 then ''&quot;''
             else if c = CHR 0x27 then ''&#039;''
             else [c]) s)"
    using escapeHtml_concat [of s] by (simp only: escapeChar_cases)
  then show ?thesis
    using escapeHtml_no_markup [of s] escapeHtml_amp [of _ s] preview_text [of r fc preview]
    by auto
qed

theorem escapeHtml_safe_witness:
  \<open>escapeHtml unsafeText = ''&lt;a href=&quot;x&quot;&gt;Tom &amp; Jerry&#039;s&lt;/a&gt;'' \<and>
   escapeHtml unsafeText =
     concat (map
       (\<lambda>c. if c = CHR ''&'' then ''&amp;''
             else if c = CHR ''<'' then ''&lt;''
             else if c = CHR ''>'' then ''&gt;''
             else if c = CHR 0x22 then ''&quot;''
             else if c = CHR 0x27 then ''&#039;''
             else [c]) unsafeText) \<and>
   CHR ''<'' \<notin> set (escapeHtml unsafeText) \<and> CHR ''>'' \<notin> set (escapeHtml unsafeText) \<and>
   CHR 0x22 \<notin> set (escapeHtml unsafeText) \<and> CHR 0x27 \<notin> set (escapeHtml unsafeText) \<and>
   escapeHtml unsafeText ! 0 = CHR ''&'' \<and>
   (\<exists>e \<in> set entities. prefix e (drop 0 (escapeHtml unsafeText))) \<and>
   ftype (mkResult ''n.txt'' noteFile) = ''text'' \<and>
   getFilePreview [''n.txt'' \<mapsto> unsafeText] (mkResult ''n.txt'' noteFile) =
     Inr (''<div class="text-content">'' @ escapeHtml unsafeText @ ''</div>'')\<close>
proof -
  have v: \<open>escapeHtml unsafeText = ''&lt;a href=&quot;x&quot;&gt;Tom &amp; Jerry&#039;s&lt;/a&gt;''\<close>
    by code_simp
  have t: "ftype (mkResult ''n.txt'' noteFile) = ''text''"
    by (simp add: mkResult_def noteFile_def)
  have p: \<open>getFilePreview [''n.txt'' \<mapsto> unsafeText] (mkResult ''n.txt'' noteFile) =
     Inr (''<div class="text-content">'' @ escapeHtml unsafeText @ ''</div>'')\<close>
    by (simp add: getFilePreview_def getProp_def textContentDiv_def mkResult_def noteFile_def
        unsafeText_def)
  have i: "0 < length (escapeHtml unsafeText)" and a: "escapeHtml unsafeText ! 0 = CHR ''&''"
    by (simp_all add: v)
  note w = escapeHtml_safe [of unsafeText "mkResult ''n.txt'' noteFile"
      "[''n.txt'' \<mapsto> unsafeText]"
      "''<div class=\"text-content\">'' @ escapeHtml unsafeText @ ''</div>''"]
  from w have m: "escapeHtml unsafeText =
     concat (map
       (\<lambda>c. if c = CHR ''&'' then ''&amp;''
             else if c = CHR ''<'' then ''&lt;''
             else if c = CHR ''>'' then ''&gt;''
             else if c = CHR 0x22 then ''&quot;''
             else if c = CHR 0x27 then ''&#039;''
             else [c]) unsafeText)"
    by (rule conjunct1)
  from w i a
  have "CHR ''<'' \<notin> set (escapeHtml unsafeText)" "CHR ''>'' \<notin> set (escapeHtml unsafeText)"
    "CHR 0x22 \<notin> set (escapeHtml unsafeText)" "CHR 0x27 \<notin> set (escapeHtml unsafeText)"
    "\<exists>e \<in> set entities. prefix e (drop 0 (escapeHtml unsafeText))"
    by blast+
  with v m t p a show ?thesis
    by blast
qed


section \<open>Result markup\<close>

lemma sublist_join_mem:
  "x \<in> set xs \<Longrightarrow> sublist y x \<Longrightarrow> sublist y (join sep xs)"
proof (induction sep xs rule: join.induct)
  case (1 sep)
  then show ?case by simp
next
  case (2 sep x')
  then show ?case by simp
next
  case (3 sep x' y' ys)
  show ?case
  proof (cases "x = x'")
    case True
    with "3.prems" have "sublist y (x' @ sep @ join sep (y' # ys))"
      by (auto simp: sublist_append)
    then show ?thesis by simp
  next
    case False
    with "3.prems" have "sublist y (join sep (y' # ys))"
      using "3.IH" by simp
    then have "sublist y (x' @ sep @ join sep (y' # ys))"
      by (auto simp: sublist_append)
    then show ?thesis by simp
  qed
qed

lemma sublist_trans: "sublist xs ys \<Longrightarrow> sublist ys zs \<Longrightarrow> sublist xs zs"
  unfolding sublist_def by (metis append.assoc)

lemma sublist_lines_nth:
  "i < length ls \<Longrightarrow> sublist y (ls ! i) \<Longrightarrow> sublist y (lines ls)"
  unfolding lines_def by (rule sublist_join_mem [of "ls ! i"]) simp_all

lemma sublist_indented: "sublist y x \<Longrightarrow> sublist y (ind @ x)"
  by (simp add: sublist_append)

lemma resultItem_Inr:
  assumes "resultItem fc nt r = Inr html"
  obtains preview where "getFilePreview fc r = Inr preview"
    and "html = lines (itemLines nt r preview)"
  using assms by (auto simp: resultItem_def split: sum.splits)

lemma item_path:
  \<open>sublist (''<div class="file-path">'' @ path r @ ''</div>'') (lines (itemLines nt r preview))\<close>
  by (rule sublist_lines_nth [where i = 7]) (simp_all add: itemLines_def sublist_Cons_right)

lemma item_preview: "sublist preview (lines (itemLines nt r preview))"
  by (rule sublist_lines_nth [where i = 3]) (simp_all add: itemLines_def sublist_Cons_right)

lemma item_colorIndicator: "sublist (colorIndicator nt r) (lines (itemLines nt r preview))"
  by (rule sublist_lines_nth [where i = 8]) (simp_all add: itemLines_def sublist_Cons_right)

lemma item_viewButton: "sublist (viewButton r) (lines (itemLines nt r preview))"
  by (rule sublist_lines_nth [where i = 12]) (simp_all add: itemLines_def sublist_Cons_right)

lemma item_tags:
  assumes "t \<in> set (tags r)"
  shows "sublist (tagSpan t) (lines (itemLines nt r preview))"
proof -
  from assms have "sublist (tagSpan t) (join [] (map tagSpan (tags r)))"
    by (intro sublist_join_mem [of "tagSpan t"]) simp_all
  then show ?thesis
    by (intro sublist_lines_nth [where i = 10]) (simp_all add: itemLines_def sublist_Cons_right)
qed

lemma colorIndicator_swatch:
  assumes "ftype r = ''image''"
  shows \<open>sublist (''style="background-color: '' @ swatch nt (color r) @ ''"></span>'')
           (colorIndicator nt r)\<close>
  by (simp only: colorIndicator_def assms simp_thms if_True)
     (rule sublist_lines_nth [where i = 2]; simp add: sublist_Cons_right)

lemma colorIndicator_color:
  assumes "ftype r = ''image''"
  shows "sublist (''<span>'' @ interpolate (color r) @ ''</span>'') (colorIndicator nt r)"
  by (simp only: colorIndicator_def assms simp_thms if_True)
     (rule sublist_lines_nth [where i = 3]; simp add: sublist_Cons_right)

lemma viewButton_path:
  assumes "ftype r = ''3d''"
  shows \<open>sublist (''data-path="'' @ path r @ ''">'') (viewButton r)\<close>
  by (simp only: viewButton_def assms simp_thms if_True)
     (rule sublist_lines_nth [where i = 1]; simp add: sublist_Cons_right)

lemma preview_image:
  assumes "ftype r = ''image''"
  shows \<open>getFilePreview fc r = Inr (''<img src="data/'' @ path r @ ''" alt="'' @ path r @ ''">'')\<close>
  using assms by (simp add: getFilePreview_def)

lemma preview_thumbnail:
  assumes "ftype r = ''3d''" and "thumbnail r = Some t" and "t \<noteq> []"
    and "getFilePreview fc r = Inr preview"
  shows \<open>sublist (''<img src="data/'' @ t @ ''" alt="'' @ path r @ ''" class="model-thumbnail">'')
     preview\<close>
proof -
  from assms have "preview = lines
      [''<div class=\"model-placeholder\">'',
       ''                        <img src=\"data/'' @ t @ ''\" alt=\"'' @ path r @
         ''\" class=\"model-thumbnail\">'',
       ''                    </div>'']"
    by (simp add: getFilePreview_def)
  then show ?thesis
    by (simp only:) (rule sublist_lines_nth [where i = 1]; simp add: sublist_Cons_right)
qed

lemma colorMap_truthy: "map_of colorMap c = Some hex \<Longrightarrow> hex \<noteq> []"
  by (auto simp: colorMap_def split: if_splits)

lemma swatch_known: "map_of colorMap c = Some hex \<Longrightarrow> swatch nt (Some c) = hex"
  by (simp add: swatch_def getProp_def interpolate_def colorMap_truthy)

lemma swatch_unknown:
  "map_of colorMap c = None \<Longrightarrow> c \<notin> set objectPrototypeKeys \<Longrightarrow> swatch nt (Some c) = c"
  by (simp add: swatch_def getProp_def interpolate_def)

lemma resultItem_swatch:
  assumes "ftype r = ''image''" and "resultItem fc nt r = Inr html"
  shows \<open>sublist (''style="background-color: '' @ swatch nt (color r) @ ''"></span>'') html\<close>
proof -
  from assms(2) obtain preview where "html = lines (itemLines nt r preview)"
    by (rule resultItem_Inr)
  with colorIndicator_swatch [OF assms(1)] item_colorIndicator show ?thesis
    by (blast intro: sublist_trans)
qed

text \<open>
  C7 (as amended). The color swatch is resolved through the fixed table: a color name the
  table has gives its hex value (the name \<^verbatim>\<open>unknown\<close> gives the light gray \<^verbatim>\<open>#CCCCCC\<close>), and a
  color name the table does not have, and that names no inherited member of the table
  object, gives the color name itself. For an image record this value stands in the
  \<^verbatim>\<open>background-color\<close> of the card's color dot.
\<close>

theorem swatch_resolution:
  \<open>(map_of colorMap c = Some hex \<longrightarrow> swatch nt (Some c) = hex) \<and>
   (map_of colorMap c = None \<and> c \<notin> set objectPrototypeKeys \<longrightarrow> swatch nt (Some c) = c) \<and>
   swatch nt (Some ''unknown'') = ''#CCCCCC'' \<and>
   (ftype r = ''image'' \<and> resultItem fc nt r = Inr html \<longrightarrow>
      sublist (''style="background-color: '' @ swatch nt (color r) @ ''"></span>'') html)\<close>
proof -
  have "map_of colorMap ''unknown'' = Some ''#CCCCCC''"
    by (simp add: colorMap_def)
  then have "swatch nt (Some ''unknown'') = ''#CCCCCC''"
    by (rule swatch_known)
  then show ?thesis
    using swatch_known [of c hex nt] swatch_unknown [of c nt] resultItem_swatch [of r fc nt html]
    by blast
qed

theorem swatch_resolution_witness:
  \<open>map_of colorMap ''blue'' = Some ''#0000FF'' \<and>
   swatch (\<lambda>k. []) (Some ''blue'') = ''#0000FF'' \<and>
   map_of colorMap ''<teal>'' = None \<and> ''<teal>'' \<notin> set objectPrototypeKeys \<and>
   swatch (\<lambda>k. []) (Some ''<teal>'') = ''<teal>'' \<and>
   ftype (mkResult ''<i>.png'' markupFile) = ''image'' \<and>
   (\<exists>html. resultItem Map.empty (\<lambda>k. []) (mkResult ''<i>.png'' markupFile) = Inr html \<and>
      sublist ''style="background-color: <teal>"></span>'' html)\<close>
proof -
  have blue: "map_of colorMap ''blue'' = Some ''#0000FF''"
    and teal: "map_of colorMap ''<teal>'' = None"
    and nokey: "''<teal>'' \<notin> set objectPrototypeKeys"
    by (simp_all add: colorMap_def objectPrototypeKeys_def)
  have img: "ftype (mkResult ''<i>.png'' markupFile) = ''image''"
    and col: "color (mkResult ''<i>.png'' markupFile) = Some ''<teal>''"
    by (simp_all add: mkResult_def markupFile_def)
  obtain html where html: "resultItem Map.empty (\<lambda>k. []) (mkResult ''<i>.png'' markupFile) = Inr html"
    by (simp add: resultItem_def getFilePreview_def img)
  note w = swatch_resolution [of "''blue''" "''#0000FF''" "\<lambda>k. []"]
  note t = swatch_resolution [of "''<teal>''" _ "\<lambda>k. []" "mkResult ''<i>.png'' markupFile"
      Map.empty html]
  from w blue have b: "swatch (\<lambda>k. []) (Some ''blue'') = ''#0000FF''"
    by blast
  from t teal nokey have s: "swatch (\<lambda>k. []) (Some ''<teal>'') = ''<teal>''"
    by blast
  from t img html have \<open>sublist (''style="background-color: '' @
      swatch (\<lambda>k. []) (color (mkResult ''<i>.png'' markupFile)) @ ''"></span>'') html\<close>
    by blast
  then have \<open>sublist ''style="background-color: <teal>"></span>'' html\<close>
    by (simp add: col s)
  with blue teal nokey img html b s show ?thesis
    by blast
qed

text \<open>
  The claim as stated fails: the table does not have \<^verbatim>\<open>teal\<close>, and its swatch is the text
  \<^verbatim>\<open>teal\<close>, not a gray.
\<close>

theorem swatch_gray_counterexample:
  "map_of colorMap ''teal'' = None \<and>
   swatch (\<lambda>k. []) (Some ''teal'') = ''teal'' \<and>
   swatch (\<lambda>k. []) (Some ''teal'') \<noteq> ''#CCCCCC'' \<and>
   swatch (\<lambda>k. []) (Some ''teal'') \<noteq> ''#808080''"
  by (simp add: swatch_def getProp_def interpolate_def colorMap_def objectPrototypeKeys_def)

lemma resultItems_mem:
  "resultItems fc nt rs = Inr items \<Longrightarrow> r \<in> set rs \<Longrightarrow>
     \<exists>html. resultItem fc nt r = Inr html \<and> html \<in> set items"
proof (induction rs arbitrary: items)
  case Nil
  then show ?case by simp
next
  case (Cons a rs)
  from Cons.prems(1) obtain item rest where a: "resultItem fc nt a = Inr item"
    and rest: "resultItems fc nt rs = Inr rest" and items: "items = item # rest"
    by (auto split: sum.splits)
  show ?case
  proof (cases "r = a")
    case True
    with a items show ?thesis by simp
  next
    case False
    with Cons.prems(2) have "r \<in> set rs" by simp
    from Cons.IH [OF rest this] items show ?thesis by auto
  qed
qed

lemma displayResults_shows_item:
  assumes "displayResults fc nt rs c = (None, c')" and "r \<in> set rs"
  shows "\<exists>html. resultItem fc nt r = Inr html \<and> sublist html (innerHTML c') \<and>
           display c' = ''grid''"
proof -
  from assms(2) have "rs \<noteq> []" by auto
  with assms(1) obtain items where items: "resultItems fc nt rs = Inr items"
    and c': "c' = c\<lparr>display := ''grid'', innerHTML := join [] items\<rparr>"
    by (auto simp: displayResults_def split: sum.splits)
  from resultItems_mem [OF items assms(2)] obtain html
    where "resultItem fc nt r = Inr html" and "html \<in> set items"
    by blast
  with c' show ?thesis
    by (auto intro: sublist_join_mem)
qed

lemma tagSpan_text:
  \<open>tagSpan t = ''<span class="tag">'' @ tag t @ '' ('' @ confidence t @ '')</span>''\<close>
  by (simp add: tagSpan_def)

text \<open>
  C9. In the markup of every result card, and so in the markup that \<open>displayResults\<close>
  gives the results container, the file path, the tag texts with their confidences, the
  color name (image) and the thumbnail path (3d) stand verbatim, exactly as the record
  holds them, whatever characters they contain; the one field that goes through
  \<open>escapeHtml\<close> is the body of a text record.
\<close>

theorem fields_verbatim:
  assumes "resultItem fc nt r = Inr html"
  shows
  \<open>sublist (''<div class="file-path">'' @ path r @ ''</div>'') html \<and>
   (\<forall>t \<in> set (tags r).
      sublist (''<span class="tag">'' @ tag t @ '' ('' @ confidence t @ '')</span>'') html) \<and>
   (ftype r = ''image'' \<longrightarrow>
      sublist (''<img src="data/'' @ path r @ ''" alt="'' @ path r @ ''">'') html \<and>
      (\<forall>c. color r = Some c \<longrightarrow> sublist (''<span>'' @ c @ ''</span>'') html)) \<and>
   (ftype r = ''3d'' \<longrightarrow>
      sublist (''data-path="'' @ path r @ ''">'') html \<and>
      (\<forall>t. thumbnail r = Some t \<and> t \<noteq> [] \<longrightarrow>
         sublist
           (''<img src="data/'' @ t @ ''" alt="'' @ path r @ ''" class="model-thumbnail">'')
           html)) \<and>
   (ftype r = ''text'' \<longrightarrow>
      (\<exists>content.
         sublist (''<div class="text-content">'' @ escapeHtml content @ ''</div>'') html \<and>
         (content = ''Loading...'' \<or> fc (path r) = Some content))) \<and>
   (\<forall>rs c c'. r \<in> set rs \<and> displayResults fc nt rs c = (None, c') \<longrightarrow>
      sublist html (innerHTML c'))\<close>
proof -
  from assms obtain preview where preview: "getFilePreview fc r = Inr preview"
    and html: "html = lines (itemLines nt r preview)"
    by (rule resultItem_Inr)
  note in_preview = sublist_trans [OF _ item_preview [of preview nt r]]
  note in_color = sublist_trans [OF _ item_colorIndicator [of nt r preview]]
  note in_button = sublist_trans [OF _ item_viewButton [of r nt preview]]
  have "sublist (''<div class=\"file-path\">'' @ path r @ ''</div>'') html"
    unfolding html by (rule item_path)
  moreover have "\<forall>t \<in> set (tags r).
      sublist (''<span class=\"tag\">'' @ tag t @ '' ('' @ confidence t @ '')</span>'') html"
    unfolding html using item_tags [of _ r nt preview] by (simp add: tagSpan_text)
  moreover have "sublist (''<img src=\"data/'' @ path r @ ''\" alt=\"'' @ path r @ ''\">'') html"
    if "ftype r = ''image''"
    unfolding html using preview preview_image [OF that, of fc] item_preview [of preview nt r]
    by simp
  moreover have "sublist (''<span>'' @ c @ ''</span>'') html"
    if "ftype r = ''image''" and "color r = Some c" for c
    unfolding html using colorIndicator_color [OF that(1), of nt] that(2)
    by (intro in_color) (simp add: interpolate_def)
  moreover have "sublist (''data-path=\"'' @ path r @ ''\">'') html" if "ftype r = ''3d''"
    unfolding html by (intro in_button viewButton_path that)
  moreover have "sublist
      (''<img src=\"data/'' @ t @ ''\" alt=\"'' @ path r @ ''\" class=\"model-thumbnail\">'') html"
    if "ftype r = ''3d''" and "thumbnail r = Some t" and "t \<noteq> []" for t
    unfolding html by (intro in_preview preview_thumbnail [OF that preview])
  moreover have "\<exists>content.
      sublist (''<div class=\"text-content\">'' @ escapeHtml content @ ''</div>'') html \<and>
      (content = ''Loading...'' \<or> fc (path r) = Some content)"
    if "ftype r = ''text''"
    using preview_text [OF that preview] item_preview [of preview nt r] html by auto
  moreover have "sublist html (innerHTML c')"
    if "r \<in> set rs" and "displayResults fc nt rs c = (None, c')" for rs c c'
    using displayResults_shows_item [OF that(2,1)] assms by auto
  ultimately show ?thesis
    by blast
qed

theorem fields_verbatim_witness:
  \<open>(\<exists>html. resultItem Map.empty (\<lambda>k. []) (mkResult ''<i>.png'' markupFile) = Inr html \<and>
      sublist ''<div class="file-path"><i>.png</div>'' html \<and>
      sublist ''<span class="tag">a&b (<90%>)</span>'' html \<and>
      sublist ''<img src="data/<i>.png" alt="<i>.png">'' html \<and>
      sublist ''<span><teal></span>'' html) \<and>
   (\<exists>html. resultItem Map.empty (\<lambda>k. []) (mkResult ''m.glb'' modelFile) = Inr html \<and>
      sublist ''data-path="m.glb">'' html \<and>
      sublist ''<img src="data/m<1>.png" alt="m.glb" class="model-thumbnail">'' html)\<close>
proof -
  let ?img = "mkResult ''<i>.png'' markupFile" and ?mdl = "mkResult ''m.glb'' modelFile"
  have img: "ftype ?img = ''image''" "path ?img = ''<i>.png''" "color ?img = Some ''<teal>''"
    "tags ?img = [\<lparr>tag = ''a&b'', confidence = ''<90%>''\<rparr>]"
    by (simp_all add: mkResult_def markupFile_def)
  have mdl: "ftype ?mdl = ''3d''" "path ?mdl = ''m.glb''" "thumbnail ?mdl = Some ''m<1>.png''"
    by (simp_all add: mkResult_def modelFile_def)
  obtain h1 where h1: "resultItem Map.empty (\<lambda>k. []) ?img = Inr h1"
    by (simp add: resultItem_def getFilePreview_def img)
  obtain h2 where h2: "resultItem Map.empty (\<lambda>k. []) ?mdl = Inr h2"
    by (simp add: resultItem_def getFilePreview_def mdl)
  from fields_verbatim [OF h1] have
    "sublist ''<div class=\"file-path\"><i>.png</div>'' h1"
    "sublist ''<span class=\"tag\">a&b (<90%>)</span>'' h1"
    "sublist ''<img src=\"data/<i>.png\" alt=\"<i>.png\">'' h1"
    "sublist ''<span><teal></span>'' h1"
    by (simp_all add: img)
  moreover from fields_verbatim [OF h2] have
    "sublist ''data-path=\"m.glb\">'' h2"
    "sublist ''<img src=\"data/m<1>.png\" alt=\"m.glb\" class=\"model-thumbnail\">'' h2"
    by (simp_all add: mdl)
  ultimately show ?thesis
    using h1 h2 by blast
qed


section \<open>The text cache\<close>

lemma setProp_apply:
  "setProp obj k v p = (if k \<noteq> ''__proto__'' \<and> p = k then Some v else obj p)"
  by (simp add: setProp_def)

lemma loadTextContents_text_step:
  assumes "ftype f = ''text''"
  shows "\<exists>s'. loadTextContents fetch ((q, f) # rest) s = loadTextContents fetch rest s' \<and>
           fileContents s' = setProp (fileContents s) q (fetchedText fetch q)"
proof (cases "fetch (''data/'' @ q)")
  case None
  with assms show ?thesis
    by (intro exI [of _ "textFetchFailed q s"]) (simp add: fetchedText_def textFetchFailed_def)
next
  case (Some r)
  show ?thesis
  proof (cases "textBody r")
    case None
    with Some assms show ?thesis
      by (intro exI [of _ "textFetchFailed q s"]) (simp add: fetchedText_def textFetchFailed_def)
  next
    case (Some body)
    with \<open>fetch (''data/'' @ q) = Some r\<close> assms show ?thesis
      by (intro exI [of _ "s\<lparr>fileContents := setProp (fileContents s) q body\<rparr>"])
         (simp add: fetchedText_def)
  qed
qed

lemma loadTextContents_fileContents:
  "fileContents (loadTextContents fetch fs s) p =
     (if p \<noteq> ''__proto__'' \<and> (\<exists>f. (p, f) \<in> set fs \<and> ftype f = ''text'')
      then Some (fetchedText fetch p) else fileContents s p)"
proof (induction fs arbitrary: s)
  case Nil
  then show ?case by simp
next
  case (Cons e fs)
  obtain q f where e: "e = (q, f)"
    by (cases e)
  show ?case
  proof (cases "ftype f = ''text''")
    case True
    from loadTextContents_text_step [OF True, of fetch q fs s] obtain s'
      where "loadTextContents fetch ((q, f) # fs) s = loadTextContents fetch fs s'"
        and "fileContents s' = setProp (fileContents s) q (fetchedText fetch q)"
      by blast
    with Cons.IH [of s'] True show ?thesis
      by (auto simp: e setProp_apply)
  next
    case False
    with Cons.IH [of s] show ?thesis
      by (auto simp: e)
  qed
qed

lemma loadData_fileContents:
  assumes "fetch ''data/tags.json'' = Some r0" and "jsonBody r0 = Some fd"
    and "(p, file) \<in> set (files fd)" and "ftype file = ''text''" and "p \<noteq> ''__proto__''"
  shows "fileContents (loadData fetch initialPage) p = Some (fetchedText fetch p)"
  using assms by (auto simp: loadData_def loadTextContents_fileContents)

lemma preview_placeholder:
  assumes "ftype file = ''text''"
    and "fc p = Some [] \<or> (fc p = None \<and> p \<notin> set objectPrototypeKeys)"
  shows \<open>getFilePreview fc (mkResult p file) = Inr ''<div class="text-content">Loading...</div>''\<close>
proof -
  have \<open>textContentDiv ''Loading...'' = ''<div class="text-content">Loading...</div>''\<close>
    by (simp add: textContentDiv_def escapeHtml_Cons escapeHtml_Nil escapeChar_def)
  with assms show ?thesis
    by (auto simp: getFilePreview_def getProp_def mkResult_def)
qed


text \<open>
  C10. For every text record whose body was fetched and is the empty string, the cache
  holds the empty string under the record's path and the preview still shows the
  placeholder \<^verbatim>\<open>Loading...\<close>, the same preview as while the path has no cache entry yet:
  \<^verbatim>\<open>fileContents[result.path] || 'Loading...'\<close> tests the cached value for truthiness, not the
  key for presence. (The assignment to the key \<^verbatim>\<open>__proto__\<close> stores nothing, and a read of a
  pending key that names an inherited member finds that member; these keys are left out.)
\<close>

theorem empty_body_placeholder:
  assumes "ftype file = ''text''"
  shows
  \<open>(fc p = Some [] \<longrightarrow>
      getFilePreview fc (mkResult p file) = Inr ''<div class="text-content">Loading...</div>'') \<and>
   (fc p = None \<and> p \<notin> set objectPrototypeKeys \<longrightarrow>
      getFilePreview fc (mkResult p file) = Inr ''<div class="text-content">Loading...</div>'') \<and>
   (fetch ''data/tags.json'' = Some r0 \<and> jsonBody r0 = Some fd \<and> (p, file) \<in> set (files fd) \<and>
    p \<noteq> ''__proto__'' \<and> fetch (''data/'' @ p) = Some resp \<and> textBody resp = Some [] \<longrightarrow>
      fileContents (loadData fetch initialPage) p = Some [] \<and>
      getFilePreview (fileContents (loadData fetch initialPage)) (mkResult p file) =
        Inr ''<div class="text-content">Loading...</div>'')\<close>
proof -
  have "fileContents (loadData fetch initialPage) p = Some []"
    if "fetch ''data/tags.json'' = Some r0" "jsonBody r0 = Some fd" "(p, file) \<in> set (files fd)"
      "p \<noteq> ''__proto__''" "fetch (''data/'' @ p) = Some resp" "textBody resp = Some []"
    using loadData_fileContents [of fetch r0 fd p "file"] that assms
    by (simp add: fetchedText_def)
  then show ?thesis
    using preview_placeholder [OF assms] by blast
qed

theorem empty_body_placeholder_witness:
  \<open>ftype noteFile = ''text'' \<and>
   exampleFetch ''data/empty.txt'' = Some (Response None (Some [])) \<and>
   fileContents (loadData exampleFetch initialPage) ''empty.txt'' = Some [] \<and>
   getFilePreview (fileContents (loadData exampleFetch initialPage)) (mkResult ''empty.txt'' noteFile) =
     Inr ''<div class="text-content">Loading...</div>'' \<and>
   getFilePreview Map.empty (mkResult ''empty.txt'' noteFile) =
     Inr ''<div class="text-content">Loading...</div>''\<close>
proof -
  let ?fd = "\<lparr>files = [(''empty.txt'', noteFile)]\<rparr>"
  have t: "ftype noteFile = ''text''"
    by (simp add: noteFile_def)
  have f: "exampleFetch ''data/tags.json'' = Some (Response (Some ?fd) None)"
    "exampleFetch (''data/'' @ ''empty.txt'') = Some (Response None (Some []))"
    "exampleFetch ''data/empty.txt'' = Some (Response None (Some []))"
    by (simp_all add: exampleFetch_def)
  have k: "''empty.txt'' \<noteq> ''__proto__''" "''empty.txt'' \<notin> set objectPrototypeKeys"
    by (simp_all add: objectPrototypeKeys_def)
  note w = empty_body_placeholder [OF t, of _ "''empty.txt''" exampleFetch
      "Response (Some ?fd) None" ?fd "Response None (Some [])"]
  from w [of Map.empty] f k
  have "fileContents (loadData exampleFetch initialPage) ''empty.txt'' = Some []"
    and "getFilePreview (fileContents (loadData exampleFetch initialPage))
        (mkResult ''empty.txt'' noteFile) = Inr ''<div class=\"text-content\">Loading...</div>''"
    by simp_all
  moreover from w [of Map.empty] k
  have "getFilePreview Map.empty (mkResult ''empty.txt'' noteFile) =
      Inr ''<div class=\"text-content\">Loading...</div>''"
    by simp
  ultimately show ?thesis
    using t f by blast
qed


section \<open>The 3D model viewer\<close>

lemma updateSession_fields:
  "modalDisplay (updateSession i f v) = modalDisplay v"
  "containerNodes (updateSession i f v) = containerNodes v"
  "frameCallbacks (updateSession i f v) = frameCallbacks v"
  "resizeListeners (updateSession i f v) = resizeListeners v"
  "currentModel (updateSession i f v) = currentModel v"
  "disposed (updateSession i f v) = disposed v"
  "viewerConsole (updateSession i f v) = viewerConsole v"
  "uncaught (updateSession i f v) = uncaught v"
  "length (sessions (updateSession i f v)) = length (sessions v)"
  by (simp_all add: updateSession_def)

lemma updateSession_other:
  "j \<noteq> i \<Longrightarrow> sessions (updateSession i f v) ! j = sessions v ! j"
  by (simp add: updateSession_def)

lemma animate_fields:
  "modalDisplay (animate i v) = modalDisplay v"
  "containerNodes (animate i v) = containerNodes v"
  "frameCallbacks (animate i v) = frameCallbacks v @ [i]"
  "resizeListeners (animate i v) = resizeListeners v"
  "currentModel (animate i v) = currentModel v"
  "disposed (animate i v) = disposed v"
  "uncaught (animate i v) = uncaught v"
  "length (sessions (animate i v)) = length (sessions v)"
  by (simp_all add: animate_def updateSession_fields)

lemma animate_all_fields:
  "modalDisplay (foldl (\<lambda>w i. animate i w) v is) = modalDisplay v"
  "containerNodes (foldl (\<lambda>w i. animate i w) v is) = containerNodes v"
  "frameCallbacks (foldl (\<lambda>w i. animate i w) v is) = frameCallbacks v @ is"
  "resizeListeners (foldl (\<lambda>w i. animate i w) v is) = resizeListeners v"
  "currentModel (foldl (\<lambda>w i. animate i w) v is) = currentModel v"
  "disposed (foldl (\<lambda>w i. animate i w) v is) = disposed v"
  "uncaught (foldl (\<lambda>w i. animate i w) v is) = uncaught v"
  "length (sessions (foldl (\<lambda>w i. animate i w) v is)) = length (sessions v)"
  by (induction "is" arbitrary: v; simp add: animate_fields)+

lemma frame_fields:
  "modalDisplay (frame v) = modalDisplay v"
  "containerNodes (frame v) = containerNodes v"
  "frameCallbacks (frame v) = frameCallbacks v"
  "resizeListeners (frame v) = resizeListeners v"
  "currentModel (frame v) = currentModel v"
  "disposed (frame v) = disposed v"
  "uncaught (frame v) = uncaught v"
  "length (sessions (frame v)) = length (sessions v)"
  by (simp_all add: frame_def animate_all_fields)

lemma open_fields:
  "containerNodes (openModelViewer p v) = [Canvas (length (sessions v)), LoadingText (length (sessions v))]"
  "frameCallbacks (openModelViewer p v) = frameCallbacks v @ [length (sessions v)]"
  "resizeListeners (openModelViewer p v) = resizeListeners v @ [length (sessions v)]"
  "currentModel (openModelViewer p v) = currentModel v"
  "disposed (openModelViewer p v) = disposed v"
  "uncaught (openModelViewer p v) = uncaught v"
  "length (sessions (openModelViewer p v)) = Suc (length (sessions v))"
  "modalDisplay (openModelViewer p v) = Some ''block''"
  by (simp_all add: openModelViewer_def initThreeJsViewer_def Let_def animate_fields)

lemma open_keeps_sessions:
  "j < length (sessions v) \<Longrightarrow> sessions (openModelViewer p v) ! j = sessions v ! j"
  by (simp add: openModelViewer_def initThreeJsViewer_def Let_def animate_def updateSession_def
      nth_append)

lemma close_fields:
  "modalDisplay (closeModelViewer v) = (case modalDisplay v of None \<Rightarrow> None | Some d \<Rightarrow> Some ''none'')"
  "containerNodes (closeModelViewer v) = containerNodes v"
  "sessions (closeModelViewer v) = sessions v"
  "frameCallbacks (closeModelViewer v) = frameCallbacks v"
  "resizeListeners (closeModelViewer v) = resizeListeners v"
  "currentModel (closeModelViewer v) = currentModel v"
  "disposed (closeModelViewer v) = disposed v"
  "uncaught (closeModelViewer v) =
     uncaught v @ (case currentModel v of None \<Rightarrow> [] | Some m \<Rightarrow> [TypeError])"
  by (simp_all add: closeModelViewer_def Let_def split: option.splits)

lemma close_dispose_throws:
  assumes "currentModel v = Some m"
  shows "uncaught (closeModelViewer v) = uncaught v @ [TypeError]"
    and "currentModel (closeModelViewer v) = Some m"
    and "disposed (closeModelViewer v) = disposed v"
  using assms by (simp_all add: close_fields)

lemma callback_fields:
  "frameCallbacks (onSuccess i m v) = frameCallbacks v"
  "resizeListeners (onSuccess i m v) = resizeListeners v"
  "length (sessions (onSuccess i m v)) = length (sessions v)"
  "frameCallbacks (onProgress i t v) = frameCallbacks v"
  "resizeListeners (onProgress i t v) = resizeListeners v"
  "length (sessions (onProgress i t v)) = length (sessions v)"
  "frameCallbacks (onError i v) = frameCallbacks v"
  "resizeListeners (onError i v) = resizeListeners v"
  "length (sessions (onError i v)) = length (sessions v)"
  by (simp_all add: onSuccess_def onProgress_def onError_def updateSession_fields)

lemma step_loops:
  "frameCallbacks (step e v) = frameCallbacks v @ (if isOpen e then [length (sessions v)] else [])"
  "resizeListeners (step e v) = resizeListeners v @ (if isOpen e then [length (sessions v)] else [])"
  "length (sessions (step e v)) = length (sessions v) + (if isOpen e then 1 else 0)"
  by (cases e; simp add: open_fields close_fields frame_fields callback_fields)+

lemma run_Nil: "run [] v = v"
  by (simp add: run_def)

lemma run_Cons: "run (e # evs) v = run evs (step e v)"
  by (simp add: run_def)

lemma run_snoc: "run (evs @ [e]) v = step e (run evs v)"
  by (simp add: run_def)

lemma run_sessions_length:
  "length (sessions (run evs v)) = length (sessions v) + length (filter isOpen evs)"
  by (induction evs rule: rev_induct) (simp_all add: run_Nil run_snoc step_loops)

lemma run_loops:
  "frameCallbacks (run evs v) =
     frameCallbacks v @ [length (sessions v)..<length (sessions v) + length (filter isOpen evs)]"
  "resizeListeners (run evs v) =
     resizeListeners v @ [length (sessions v)..<length (sessions v) + length (filter isOpen evs)]"
  by (induction evs rule: rev_induct;
      simp add: run_Nil run_snoc step_loops run_sessions_length)+


text \<open>
  C2 (as amended). A request for a new asset tears nothing down: \<open>openModelViewer\<close> empties
  the shared container and starts a further session with a render loop and a resize
  listener of its own, and leaves \<^verbatim>\<open>currentModel\<close>, every earlier render loop and every earlier
  resize listener as they were. At every reachable state the scheduled render loops, and
  the registered resize listeners, are those of all the sessions opened so far, one for
  each open request.
\<close>

theorem sessions_accumulate:
  "frameCallbacks (run evs initialViewer) = [0..<length (filter isOpen evs)] \<and>
   resizeListeners (run evs initialViewer) = [0..<length (filter isOpen evs)] \<and>
   length (sessions (run evs initialViewer)) = length (filter isOpen evs) \<and>
   frameCallbacks (openModelViewer p v) = frameCallbacks v @ [length (sessions v)] \<and>
   resizeListeners (openModelViewer p v) = resizeListeners v @ [length (sessions v)] \<and>
   currentModel (openModelViewer p v) = currentModel v \<and>
   disposed (openModelViewer p v) = disposed v"
  by (simp add: run_loops run_sessions_length open_fields) (simp add: initialViewer_def)

theorem sessions_accumulate_witness:
  "frameCallbacks
     (run [OpenModel ''a.glb'', DecodeSuccess 0 7, CloseModel, OpenModel ''b.glb''] initialViewer) =
     [0, 1] \<and>
   resizeListeners
     (run [OpenModel ''a.glb'', DecodeSuccess 0 7, CloseModel, OpenModel ''b.glb''] initialViewer) =
     [0, 1] \<and>
   currentModel (openModelViewer ''b.glb'' (run [OpenModel ''a.glb'', DecodeSuccess 0 7] initialViewer)) =
     currentModel (run [OpenModel ''a.glb'', DecodeSuccess 0 7] initialViewer)"
  using sessions_accumulate
    [of "[OpenModel ''a.glb'', DecodeSuccess 0 7, CloseModel, OpenModel ''b.glb'']" "''b.glb''"
      "run [OpenModel ''a.glb'', DecodeSuccess 0 7] initialViewer"]
  by (simp add: upt_rec)


text \<open>
  The claim as stated fails: with asset A loaded, a request for asset B leaves two render
  loops scheduled and two resize listeners registered, A's model still in
  \<^verbatim>\<open>currentModel\<close> and nothing disposed; on the next display frame both sessions render.
\<close>

theorem one_session_counterexample:
  "frameCallbacks (run [OpenModel ''a.glb'', DecodeSuccess 0 7, OpenModel ''b.glb''] initialViewer) =
     [0, 1] \<and>
   resizeListeners (run [OpenModel ''a.glb'', DecodeSuccess 0 7, OpenModel ''b.glb''] initialViewer) =
     [0, 1] \<and>
   currentModel (run [OpenModel ''a.glb'', DecodeSuccess 0 7, OpenModel ''b.glb''] initialViewer) =
     Some 7 \<and>
   disposed (run [OpenModel ''a.glb'', DecodeSuccess 0 7, OpenModel ''b.glb''] initialViewer) = [] \<and>
   map rendered
     (sessions (run [OpenModel ''a.glb'', DecodeSuccess 0 7, OpenModel ''b.glb''] initialViewer)) =
     [1, 1] \<and>
   map rendered
     (sessions
        (run [OpenModel ''a.glb'', DecodeSuccess 0 7, OpenModel ''b.glb'', Frame] initialViewer)) =
     [2, 2]"
  by code_simp


text \<open>
  C3 (as amended). \<open>closeModelViewer\<close> hides the modal. It neither stops a render loop nor
  detaches a resize listener: every scheduled loop is scheduled again after the next frame,
  and loops and listeners stay in place whatever happens afterwards.
\<close>

theorem close_effect:
  "modalDisplay (closeModelViewer v) =
     (case modalDisplay v of None \<Rightarrow> None | Some d \<Rightarrow> Some ''none'') \<and>
   sessions (closeModelViewer v) = sessions v \<and>
   containerNodes (closeModelViewer v) = containerNodes v \<and>
   frameCallbacks (closeModelViewer v) = frameCallbacks v \<and>
   resizeListeners (closeModelViewer v) = resizeListeners v \<and>
   frameCallbacks (frame (closeModelViewer v)) = frameCallbacks v \<and>
   prefix (frameCallbacks v) (frameCallbacks (run evs (closeModelViewer v))) \<and>
   prefix (resizeListeners v) (resizeListeners (run evs (closeModelViewer v)))"
  by (simp add: close_fields frame_fields run_loops)

theorem close_effect_witness:
  "modalDisplay (closeModelViewer (run [OpenModel ''a.glb'', DecodeSuccess 0 7] initialViewer)) =
     Some ''none'' \<and>
   frameCallbacks (closeModelViewer (run [OpenModel ''a.glb'', DecodeSuccess 0 7] initialViewer)) = [0] \<and>
   resizeListeners (closeModelViewer (run [OpenModel ''a.glb'', DecodeSuccess 0 7] initialViewer)) = [0] \<and>
   frameCallbacks
     (frame (closeModelViewer (run [OpenModel ''a.glb'', DecodeSuccess 0 7] initialViewer))) = [0] \<and>
   prefix [0]
     (frameCallbacks
        (run [Frame, OpenModel ''b.glb'']
           (closeModelViewer (run [OpenModel ''a.glb'', DecodeSuccess 0 7] initialViewer))))"
proof -
  let ?v = "run [OpenModel ''a.glb'', DecodeSuccess 0 7] initialViewer"
  have "modalDisplay ?v = Some ''block''" "frameCallbacks ?v = [0]" "resizeListeners ?v = [0]"
    by code_simp+
  with close_effect [of ?v "[Frame, OpenModel ''b.glb'']"] show ?thesis
    by simp
qed

text \<open>
  The claim as stated fails: after open, load and close the session's render loop is still
  scheduled and its resize listener still registered, and two display frames later the
  session has rendered twice more; the call of \<^verbatim>\<open>dispose\<close> has thrown, and the model root is
  still held in \<^verbatim>\<open>currentModel\<close>.
\<close>

theorem close_stops_loop_counterexample:
  "frameCallbacks (run [OpenModel ''a.glb'', DecodeSuccess 0 7, CloseModel] initialViewer) = [0] \<and>
   resizeListeners (run [OpenModel ''a.glb'', DecodeSuccess 0 7, CloseModel] initialViewer) = [0] \<and>
   map rendered (sessions (run [OpenModel ''a.glb'', DecodeSuccess 0 7, CloseModel] initialViewer)) =
     [1] \<and>
   map rendered
     (sessions (run [OpenModel ''a.glb'', DecodeSuccess 0 7, CloseModel, Frame, Frame] initialViewer)) =
     [3] \<and>
   frameCallbacks
     (run [OpenModel ''a.glb'', DecodeSuccess 0 7, CloseModel, Frame, Frame] initialViewer) = [0] \<and>
   uncaught (run [OpenModel ''a.glb'', DecodeSuccess 0 7, CloseModel] initialViewer) = [TypeError] \<and>
   currentModel (run [OpenModel ''a.glb'', DecodeSuccess 0 7, CloseModel] initialViewer) = Some 7 \<and>
   disposed (run [OpenModel ''a.glb'', DecodeSuccess 0 7, CloseModel] initialViewer) = []"
  by code_simp


lemma step_container:
  assumes "n \<in> set (containerNodes (step e v))"
  shows "(isOpen e \<and> n \<in> {Canvas (length (sessions v)), LoadingText (length (sessions v))}) \<or>
         (\<not> isOpen e \<and> n \<in> set (containerNodes v))"
proof (cases e)
  case (DecodeSuccess i m)
  with assms show ?thesis
    using set_remove1_subset [of "LoadingText i" "containerNodes v"]
    by (auto simp: onSuccess_def updateSession_fields split: if_splits)
qed (use assms in \<open>auto simp: open_fields close_fields frame_fields onProgress_def onError_def
      updateSession_fields split: if_splits\<close>)

lemma indicator_of_newest:
  "LoadingText i \<in> set (containerNodes (run evs initialViewer)) \<Longrightarrow>
     Suc i = length (sessions (run evs initialViewer))"
proof (induction evs rule: rev_induct)
  case Nil
  then show ?case by (simp add: run_Nil initialViewer_def)
next
  case (snoc e evs)
  from step_container [OF snoc.prems [unfolded run_snoc]] snoc.IH show ?case
    by (auto simp: run_snoc step_loops)
qed

lemma superseded_progress:
  assumes "i < length (sessions v)"
  shows "containerNodes (onProgress i t v) = containerNodes v"
    "currentModel (onProgress i t v) = currentModel v"
    "uncaught (onProgress i t v) = uncaught v"
    "j \<noteq> i \<Longrightarrow> sessions (onProgress i t v) ! j = sessions v ! j"
  by (simp_all add: onProgress_def updateSession_fields updateSession_other)

lemma superseded_error:
  assumes "i < length (sessions v)"
  shows "containerNodes (onError i v) = containerNodes v"
    "currentModel (onError i v) = currentModel v"
    "uncaught (onError i v) = uncaught v"
    "j \<noteq> i \<Longrightarrow> sessions (onError i v) ! j = sessions v ! j"
  by (simp_all add: onError_def updateSession_fields updateSession_other)

lemma superseded_success:
  assumes "LoadingText i \<notin> set (containerNodes v)"
  shows "containerNodes (onSuccess i m v) = containerNodes v"
    "currentModel (onSuccess i m v) = currentModel v"
    "sessions (onSuccess i m v) = sessions v"
  using assms by (simp_all add: onSuccess_def)


text \<open>
  C4 (as amended). At every reachable state, a progress, failure or success callback of a
  session that a newer session has superseded leaves the container's children, the newer
  session with its loading indicator, every other session, \<^verbatim>\<open>currentModel\<close>, the render loops
  and the resize listeners unchanged; the progress and the failure callback throw nothing
  (they write to the superseded session's own, detached indicator, and the failure
  callback logs).
\<close>

theorem superseded_callbacks:
  assumes "v = run evs initialViewer" and "Suc i < length (sessions v)"
    and "e = DecodeProgress i percent \<or> e = DecodeError i \<or> e = DecodeSuccess i m"
  shows "containerNodes (step e v) = containerNodes v \<and>
         currentModel (step e v) = currentModel v \<and>
         length (sessions (step e v)) = length (sessions v) \<and>
         (\<forall>j. j \<noteq> i \<longrightarrow> sessions (step e v) ! j = sessions v ! j) \<and>
         last (sessions (step e v)) = last (sessions v) \<and>
         frameCallbacks (step e v) = frameCallbacks v \<and>
         resizeListeners (step e v) = resizeListeners v \<and>
         (e \<noteq> DecodeSuccess i m \<longrightarrow> uncaught (step e v) = uncaught v)"
proof -
  from assms(1,2) have detached: "LoadingText i \<notin> set (containerNodes v)"
    using indicator_of_newest [of i evs] by auto
  from assms(2) have i: "i < length (sessions v)"
    by simp
  have closed: "\<not> isOpen e"
    using assms(3) by auto
  have main: "containerNodes (step e v) = containerNodes v \<and>
         currentModel (step e v) = currentModel v \<and>
         (\<forall>j. j \<noteq> i \<longrightarrow> sessions (step e v) ! j = sessions v ! j) \<and>
         (e \<noteq> DecodeSuccess i m \<longrightarrow> uncaught (step e v) = uncaught v)"
    using assms(3) i superseded_progress [OF i] superseded_error [OF i]
      superseded_success [OF detached]
    by auto
  have len: "length (sessions (step e v)) = length (sessions v)"
    and loops: "frameCallbacks (step e v) = frameCallbacks v"
      "resizeListeners (step e v) = resizeListeners v"
    using closed by (simp_all add: step_loops)
  from assms(2) have ne: "sessions v \<noteq> []" "sessions (step e v) \<noteq> []"
    using len by auto
  from assms(2) main have "sessions (step e v) ! (length (sessions v) - 1) =
      sessions v ! (length (sessions v) - 1)"
    by auto
  with ne len have "last (sessions (step e v)) = last (sessions v)"
    by (simp add: last_conv_nth)
  with main len loops show ?thesis
    by blast
qed

theorem superseded_callbacks_witness:
  "Suc 0 < length (sessions (run [OpenModel ''a.glb'', OpenModel ''b.glb''] initialViewer)) \<and>
   containerNodes
     (step (DecodeProgress 0 ''50'') (run [OpenModel ''a.glb'', OpenModel ''b.glb''] initialViewer)) =
     containerNodes (run [OpenModel ''a.glb'', OpenModel ''b.glb''] initialViewer) \<and>
   last (sessions
     (step (DecodeProgress 0 ''50'') (run [OpenModel ''a.glb'', OpenModel ''b.glb''] initialViewer))) =
     last (sessions (run [OpenModel ''a.glb'', OpenModel ''b.glb''] initialViewer)) \<and>
   uncaught
     (step (DecodeProgress 0 ''50'') (run [OpenModel ''a.glb'', OpenModel ''b.glb''] initialViewer)) =
     uncaught (run [OpenModel ''a.glb'', OpenModel ''b.glb''] initialViewer) \<and>
   currentModel
     (step (DecodeSuccess 0 7) (run [OpenModel ''a.glb'', OpenModel ''b.glb''] initialViewer)) =
     currentModel (run [OpenModel ''a.glb'', OpenModel ''b.glb''] initialViewer)"
proof -
  let ?v = "run [OpenModel ''a.glb'', OpenModel ''b.glb''] initialViewer"
  have two: "Suc 0 < length (sessions ?v)"
    by (simp add: run_sessions_length initialViewer_def)
  have p: "DecodeProgress 0 ''50'' = DecodeProgress 0 ''50'' \<or>
      DecodeProgress 0 ''50'' = DecodeError 0 \<or> DecodeProgress 0 ''50'' = DecodeSuccess 0 7"
    and s: "DecodeSuccess 0 7 = DecodeProgress 0 ''50'' \<or>
      DecodeSuccess 0 7 = DecodeError 0 \<or> DecodeSuccess 0 7 = DecodeSuccess 0 7"
    by simp_all
  from superseded_callbacks [OF refl two p] superseded_callbacks [OF refl two s] two
  show ?thesis
    by simp
qed


text \<open>
  The claim as stated fails: the success callback of a superseded session throws
  (\<^verbatim>\<open>removeChild\<close> of an indicator that is no child of the container any more), and after a
  close the callbacks of the closed session still act: success attaches the model to the
  closed session's scene and stores it in \<^verbatim>\<open>currentModel\<close>, progress rewrites the indicator.
\<close>

theorem stale_callback_counterexample:
  "uncaught (run [OpenModel ''a.glb'', OpenModel ''b.glb''] initialViewer) = [] \<and>
   uncaught (run [OpenModel ''a.glb'', OpenModel ''b.glb'', DecodeSuccess 0 7] initialViewer) =
     [NotFoundError] \<and>
   currentModel (run [OpenModel ''a.glb'', CloseModel] initialViewer) = None \<and>
   currentModel (run [OpenModel ''a.glb'', CloseModel, DecodeSuccess 0 7] initialViewer) = Some 7 \<and>
   map sceneModels (sessions (run [OpenModel ''a.glb'', CloseModel, DecodeSuccess 0 7] initialViewer)) =
     [[7]] \<and>
   map loadingHTML (sessions (run [OpenModel ''a.glb'', CloseModel, DecodeProgress 0 ''50''] initialViewer)) =
     [''Loading: 50%'']"
  by code_simp

end
